(* ===== verification/Prelude.thy ===== *)
theory Prelude
  imports Main
begin

text \<open>
  Shared vocabulary of the RustLisp development: the named collections the component
  theories add their unfolding rules to, and generic lemmas on maps, options and lists
  that the environment model (a Rust \<open>HashMap<String, Rc<Value>>\<close> is a partial map
  \<open>string \<rightharpoonup> 'v\<close>) and the evaluator proofs share.
\<close>

named_theorems reader_simps "unfolding rules of the reader"
named_theorems eval_simps "unfolding rules of the evaluator on constructor forms"
named_theorems store_simps "rules on the environment store"

subsection \<open>Maps: copying one HashMap into another\<close>

text \<open>
  The evaluator copies every binding of one environment into another
  (\<open>for (k, v) in outer.iter() { env.insert(k, v) }\<close>). Keys are distinct, so the
  iteration order of the hash map does not matter and the copy is \<open>target ++ outer\<close>.
\<close>

lemma map_add_restrict_lookup [simp]:
  "((m(k \<mapsto> v)) ++ (p |` (- {k}))) k = Some v"
  by (simp add: map_add_def restrict_map_def)

lemma map_add_restrict_other [simp]:
  "x \<noteq> k \<Longrightarrow> ((m(k \<mapsto> v)) ++ (p |` (- {k}))) x = (m ++ p) x"
  by (simp add: map_add_def restrict_map_def split: option.splits)

subsection \<open>Lists used as a store that only grows\<close>

lemma nth_append_less [simp]:
  "i < length xs \<Longrightarrow> (xs @ ys) ! i = xs ! i"
  by (simp add: nth_append)

lemma take_prefix_same:
  "length xs \<le> length ys \<Longrightarrow> take (length xs) ys = xs \<Longrightarrow> i < length xs \<Longrightarrow> ys ! i = xs ! i"
  by (metis nth_take)

end
