(* ===== verification/Values.thy ===== *)
theory Values
  imports Prelude
begin

text \<open>
  The data model of \<open>src/src/types.rs\<close>: the value type \<open>Value\<close>, the pair
  primitives \<open>cons\<close>, \<open>car\<close>, \<open>cdr\<close>, and the list walks the bridge and the
  built-ins share (\<open>src/src/interop.rs\<close>, \<open>src/src/rust_functions.rs\<close>).

  \<^item> \<open>Number(f64)\<close>: the numbers are a type parameter \<open>'n\<close>. Every operation
    the program applies to an \<open>f64\<close> (literal parsing, \<open>Display\<close>, \<open>+ - * /\<close>,
    \<open>==\<close>, \<open><\<close>, \<open>0.0\<close>, \<open>1.0\<close>, \<open>usize as f64\<close>) is a field of the record
    \<open>numops\<close>, passed to every function that needs it; the theorems hold for any
    choice of the operations, IEEE-754 binary64 included.
  \<^item> \<open>Procedure(String, fn(..))\<close>: the library builds procedures only from its own
    closures in \<open>setup_environment\<close> and \<open>setup_rust_functions\<close>; the function
    pointer is the datatype \<open>prim\<close> naming which of them it is.
  \<^item> \<open>Lambda(params, body, Rc<Environment>)\<close>: the shared environment is an address
    into the store of environments of the evaluator (a \<open>nat\<close>), so that aliasing of
    environments (a closure and \<open>define\<close> seeing the same map) is explicit.
  \<^item> \<open>Rc<Value>\<close> sharing is not observable (values are immutable) and is not modelled.
\<close>

record 'n numops =
  num_of_literal :: "string \<Rightarrow> 'n"
  num_show :: "'n \<Rightarrow> string"
  num_add :: "'n \<Rightarrow> 'n \<Rightarrow> 'n"
  num_sub :: "'n \<Rightarrow> 'n \<Rightarrow> 'n"
  num_mul :: "'n \<Rightarrow> 'n \<Rightarrow> 'n"
  num_div :: "'n \<Rightarrow> 'n \<Rightarrow> 'n"
  num_eq :: "'n \<Rightarrow> 'n \<Rightarrow> bool"
  num_lt :: "'n \<Rightarrow> 'n \<Rightarrow> bool"
  num_zero :: 'n
  num_one :: 'n
  num_of_nat :: "nat \<Rightarrow> 'n"

text \<open>The built-in procedures of \<open>setup_environment\<close> and \<open>setup_rust_functions\<close>.\<close>

datatype prim = PQuote | PAdd | PDefine | PLambda | PSub | PMul | PDiv
  | PNumEq | PLess | PGreater | PRustCall

type_synonym envref = nat

datatype 'n lisp_value =
    NilV
  | Bool bool
  | Number 'n
  | Symbol string
  | ConsV "'n lisp_value" "'n lisp_value"
  | Procedure string prim
  | Lambda "'n lisp_value" "'n lisp_value" envref

definition cons :: "'n lisp_value \<Rightarrow> 'n lisp_value \<Rightarrow> 'n lisp_value" where
  "cons a d = ConsV a d"

fun car :: "'n lisp_value \<Rightarrow> 'n lisp_value" where
  "car (ConsV a _) = a"
| "car _ = NilV"

fun cdr :: "'n lisp_value \<Rightarrow> 'n lisp_value" where
  "cdr (ConsV _ d) = d"
| "cdr _ = NilV"

text \<open>
  \<open>rust_to_lisp_list\<close>: \<open>for item in v.iter().rev() { result = cons(item, result) }\<close>,
  a right fold of \<open>cons\<close> over the vector.
\<close>

definition rust_to_lisp_list :: "'n lisp_value list \<Rightarrow> 'n lisp_value" where
  "rust_to_lisp_list vs = foldr cons vs NilV"

text \<open>
  \<open>lisp_to_rust_vector\<close>: \<open>while let Cons(car, cdr) = current { push(car); current = cdr }\<close>;
  the walk stops at the first tail that is not a pair, whatever it is. The same loop
  collects the arguments of \<open>rust_call\<close>.
\<close>

fun lisp_to_rust_vector :: "'n lisp_value \<Rightarrow> 'n lisp_value list" where
  "lisp_to_rust_vector (ConsV a d) = a # lisp_to_rust_vector d"
| "lisp_to_rust_vector _ = []"

text \<open>A proper list: a chain of pairs ending in \<open>Nil\<close>.\<close>

fun proper_list :: "'n lisp_value \<Rightarrow> bool" where
  "proper_list NilV = True"
| "proper_list (ConsV _ d) = proper_list d"
| "proper_list _ = False"

lemma car_cons [simp]: "car (cons a d) = a"
  and cdr_cons [simp]: "cdr (cons a d) = d"
  by (simp_all add: cons_def)

lemma rust_to_lisp_list_simps [simp]:
  "rust_to_lisp_list [] = NilV"
  "rust_to_lisp_list (v # vs) = ConsV v (rust_to_lisp_list vs)"
  by (simp_all add: rust_to_lisp_list_def cons_def)

lemma lisp_to_rust_vector_list [simp]: "lisp_to_rust_vector (rust_to_lisp_list vs) = vs"
  by (induction vs) simp_all

text \<open>
  C5 (roundtrip). Converting a proper Lisp list to a Rust vector with
  \<open>lisp_to_rust_vector\<close> and back with \<open>rust_to_lisp_list\<close> gives the list again
  (the other direction, vector to list to vector, is \<open>lisp_to_rust_vector_list\<close>).
  An improper list loses its final tail.
\<close>

theorem rust_to_lisp_list_vector:
  "proper_list v \<Longrightarrow> rust_to_lisp_list (lisp_to_rust_vector v) = v"
  by (induction v rule: proper_list.induct) simp_all

end
