(* ===== verification/Reader.thy ===== *)
theory Reader
  imports Values
begin

text \<open>
  The reader of \<open>src/src/parser.rs\<close>: \<open>read\<close>, \<open>read_expr\<close>, \<open>read_list\<close>,
  \<open>read_atom\<close>. The Rust reader consumes a \<open>Peekable<Chars>\<close>; the model takes the
  remaining characters as a list and returns the value together with what is left, or
  the error the Rust code returns as \<open>Err(String)\<close>.

  Characters: a HOL \<open>char\<close> stands for one Unicode scalar value below U+0100, so
  the model reads text over the Latin-1 block; \<open>char::is_whitespace\<close> on that block
  is exactly U+0009--U+000D, U+0020, U+0085 and U+00A0.

  \<open>atom.parse::<f64>()\<close> is split in two: which strings it accepts is the grammar of
  Rust's \<open>core::num::dec2flt\<close> (\<open>is_f64_literal\<close>, modelled here exactly); the
  number it produces is the field \<open>num_of_literal\<close> of the number operations.

  \<open>read_list\<close> recurses on the input \<open>read_expr\<close> left over, so the two are
  defined with \<^theory_text>\<open>function\<close> and their termination is proved from the partial
  fact that a successful read consumes input (\<open>read_consumes_dom\<close>).
\<close>

datatype read_error = UnexpectedEnd | ExpectedClose | EmptyAtom

text \<open>The \<open>Err\<close> strings of \<open>parser.rs\<close>.\<close>

fun read_error_message :: "read_error \<Rightarrow> string" where
  "read_error_message UnexpectedEnd = ''Unexpected end of input''"
| "read_error_message ExpectedClose = ''Expected '' @ [CHR 0x27, CHR 0x29, CHR 0x27] @ '' but got end of input''"
| "read_error_message EmptyAtom = ''Expected atom but got nothing''"

definition is_whitespace :: "char \<Rightarrow> bool" where
  "is_whitespace c \<longleftrightarrow>
     (let n = (of_char c :: nat) in (9 \<le> n \<and> n \<le> 13) \<or> n = 32 \<or> n = 133 \<or> n = 160)"

definition skip_ws :: "string \<Rightarrow> string" where
  "skip_ws cs = dropWhile is_whitespace cs"

subsection \<open>The f64 literal grammar of \<open>str::parse::<f64>\<close>\<close>

text \<open>
  \<^verbatim>\<open>Float ::= Sign? ( 'inf' | 'infinity' | 'nan' | Number )   (letters in any case)
  Number ::= ( Digit+ | Digit+ '.' Digit* | Digit* '.' Digit+ ) Exp?
  Exp ::= ('e' | 'E') Sign? Digit+\<close>
  following \<open>dec2flt\<close>: strip one sign, \<open>parse_number\<close> (digits, an optional dot and
  digits, at least one digit in all, an optional exponent, nothing left over), else
  \<open>parse_inf_nan\<close>.
\<close>

definition is_ascii_digit :: "char \<Rightarrow> bool" where
  "is_ascii_digit c \<longleftrightarrow> (let n = (of_char c :: nat) in 48 \<le> n \<and> n \<le> 57)"

definition is_sign :: "char \<Rightarrow> bool" where
  "is_sign c \<longleftrightarrow> c = CHR ''+'' \<or> c = CHR ''-''"

definition ascii_upper :: "char \<Rightarrow> char" where
  "ascii_upper c = (let n = (of_char c :: nat) in if 97 \<le> n \<and> n \<le> 122 then char_of (n - 32) else c)"

definition strip_sign :: "string \<Rightarrow> string" where
  "strip_sign s = (case s of c # r \<Rightarrow> if is_sign c then r else s | [] \<Rightarrow> [])"

definition scientific_ok :: "string \<Rightarrow> bool" where
  "scientific_ok s \<longleftrightarrow> (let ds = strip_sign s in ds \<noteq> [] \<and> list_all is_ascii_digit ds)"

definition number_ok :: "string \<Rightarrow> bool" where
  "number_ok s \<longleftrightarrow>
     (let ip = takeWhile is_ascii_digit s; r1 = dropWhile is_ascii_digit s;
          (fp, r2) = (case r1 of
              c # r \<Rightarrow> if c = CHR ''.'' then (takeWhile is_ascii_digit r, dropWhile is_ascii_digit r)
                       else ([], r1)
            | [] \<Rightarrow> ([], []))
      in length ip + length fp \<noteq> 0 \<and>
         (case r2 of [] \<Rightarrow> True | c # r \<Rightarrow> (c = CHR ''e'' \<or> c = CHR ''E'') \<and> scientific_ok r))"

definition inf_nan_ok :: "string \<Rightarrow> bool" where
  "inf_nan_ok s \<longleftrightarrow> map ascii_upper s \<in> {''INF'', ''INFINITY'', ''NAN''}"

definition is_f64_literal :: "string \<Rightarrow> bool" where
  "is_f64_literal s \<longleftrightarrow> s \<noteq> [] \<and> strip_sign s \<noteq> [] \<and>
     (number_ok (strip_sign s) \<or> inf_nan_ok (strip_sign s))"

definition parse_f64 :: "'n numops \<Rightarrow> string \<Rightarrow> 'n option" where
  "parse_f64 ops s = (if is_f64_literal s then Some (num_of_literal ops s) else None)"

subsection \<open>Atoms, expressions, lists\<close>

definition is_delim :: "char \<Rightarrow> bool" where
  "is_delim c \<longleftrightarrow> is_whitespace c \<or> c = CHR ''('' \<or> c = CHR '')''"

definition read_atom :: "'n numops \<Rightarrow> string \<Rightarrow> read_error + ('n lisp_value \<times> string)" where
  "read_atom ops cs =
     (let atom = takeWhile (\<lambda>c. \<not> is_delim c) cs;
          rest = dropWhile (\<lambda>c. \<not> is_delim c) cs
      in if atom = [] then Inl EmptyAtom
         else (case parse_f64 ops atom of
                 Some n \<Rightarrow> Inr (Number n, rest)
               | None \<Rightarrow> Inr (Symbol atom, rest)))"

definition quote_form :: "'n lisp_value \<Rightarrow> 'n lisp_value" where
  "quote_form v = cons (Symbol ''quote'') (cons v NilV)"

function (domintros) read_expr :: "'n numops \<Rightarrow> string \<Rightarrow> read_error + ('n lisp_value \<times> string)"
  and read_list :: "'n numops \<Rightarrow> string \<Rightarrow> read_error + ('n lisp_value \<times> string)"
where
  "read_expr ops cs =
     (case skip_ws cs of
        [] \<Rightarrow> Inl UnexpectedEnd
      | c # r \<Rightarrow>
          if c = CHR ''('' then read_list ops r
          else if c = CHR 0x27 then
            (case read_expr ops r of
               Inl e \<Rightarrow> Inl e
             | Inr (v, r') \<Rightarrow> Inr (quote_form v, r'))
          else read_atom ops (c # r))"
| "read_list ops cs =
     (case skip_ws cs of
        [] \<Rightarrow> Inl ExpectedClose
      | c # r \<Rightarrow>
          if c = CHR '')'' then Inr (NilV, r)
          else
            (case read_expr ops (c # r) of
               Inl e \<Rightarrow> Inl e
             | Inr (a, r1) \<Rightarrow>
                 (case read_list ops r1 of
                    Inl e \<Rightarrow> Inl e
                  | Inr (d, r2) \<Rightarrow> Inr (cons a d, r2))))"
  by pat_completeness auto

text \<open>
  \<open>read(input)\<close>: one expression from the start of the input. What follows it is
  dropped: \<open>read\<close> does not check that the input is used up.
\<close>

definition read :: "'n numops \<Rightarrow> string \<Rightarrow> string + 'n lisp_value" where
  "read ops input = map_sum read_error_message fst (read_expr ops input)"

lemma length_skip_ws: "length (skip_ws cs) \<le> length cs"
  by (simp add: skip_ws_def length_dropWhile_le)

lemma read_atom_consumes:
  "read_atom ops cs = Inr (v, r) \<Longrightarrow> length r < length cs"
proof -
  assume ok: "read_atom ops cs = Inr (v, r)"
  let ?P = "\<lambda>c. \<not> is_delim c"
  from ok have ne: "takeWhile ?P cs \<noteq> []" and r: "r = dropWhile ?P cs"
    by (auto simp: read_atom_def Let_def split: if_splits option.splits)
  have "length cs = length (takeWhile ?P cs) + length (dropWhile ?P cs)"
    by (metis length_append takeWhile_dropWhile_id)
  with ne r show ?thesis by simp
qed

lemma read_consumes_dom:
  "read_expr_read_list_dom (Inl (ops, cs)) \<Longrightarrow> read_expr ops cs = Inr (v, r) \<Longrightarrow> length r < length cs"
  "read_expr_read_list_dom (Inr (ops, cs)) \<Longrightarrow> read_list ops cs = Inr (v, r) \<Longrightarrow> length r < length cs"
proof (induction ops cs and ops cs arbitrary: v r and v r rule: read_expr_read_list.pinduct)
  case (1 ops cs)
  have sk: "length (skip_ws cs) \<le> length cs" by (rule length_skip_ws)
  show ?case
  proof (cases "skip_ws cs")
    case Nil
    with "1.prems" "1.hyps" show ?thesis by (simp add: read_expr.psimps)
  next
    case (Cons c rest)
    show ?thesis
    proof (cases "c = CHR ''(''")
      case True
      with Cons "1.prems" "1.hyps" have "read_list ops rest = Inr (v, r)"
        by (simp add: read_expr.psimps)
      with "1.IH"(1) Cons True have "length r < length rest" by blast
      with sk Cons show ?thesis by simp
    next
      case False
      show ?thesis
      proof (cases "c = CHR 0x27")
        case True
        with False Cons "1.prems" "1.hyps" obtain v' where
          "read_expr ops rest = Inr (v', r)"
          by (auto simp: read_expr.psimps split: sum.splits)
        with "1.IH"(2) Cons False True have "length r < length rest" by blast
        with sk Cons show ?thesis by simp
      next
        case q: False
        with False Cons "1.prems" "1.hyps" have "read_atom ops (c # rest) = Inr (v, r)"
          by (simp add: read_expr.psimps)
        then have "length r < length (c # rest)" by (rule read_atom_consumes)
        with sk Cons show ?thesis by simp
      qed
    qed
  qed
next
  case (2 ops cs)
  have sk: "length (skip_ws cs) \<le> length cs" by (rule length_skip_ws)
  show ?case
  proof (cases "skip_ws cs")
    case Nil
    with "2.prems" "2.hyps" show ?thesis by (simp add: read_list.psimps)
  next
    case (Cons c rest)
    show ?thesis
    proof (cases "c = CHR '')''")
      case True
      with Cons "2.prems" "2.hyps" have "r = rest" by (simp add: read_list.psimps)
      with sk Cons show ?thesis by simp
    next
      case False
      with Cons "2.prems" "2.hyps" obtain a r1 d where
        e: "read_expr ops (c # rest) = Inr (a, r1)" and l: "read_list ops r1 = Inr (d, r)"
        by (auto simp: read_list.psimps split: sum.splits)
      from "2.IH"(1) [OF Cons False e] have "length r1 < length (c # rest)" .
      moreover from "2.IH"(2) [OF Cons False e refl l] have "length r < length r1" .
      ultimately show ?thesis using sk Cons by simp
    qed
  qed
qed

lemma skip_ws_Cons_shorter:
  "skip_ws cs = c # r \<Longrightarrow> length r < length cs"
  using length_skip_ws [of cs] by simp

lemma read_list_rest_shorter:
  "skip_ws cs = c # r \<Longrightarrow> read_expr_read_list_dom (Inl (ops, c # r)) \<Longrightarrow>
   read_expr ops (c # r) = Inr (a, b) \<Longrightarrow> length b < length cs"
  using read_consumes_dom(1) [of ops "c # r" a b] length_skip_ws [of cs] by simp

termination read_expr
proof (relation "measures [\<lambda>x. case x of Inl (_, cs) \<Rightarrow> length cs | Inr (_, cs) \<Rightarrow> length cs,
                           \<lambda>x. case x of Inl _ \<Rightarrow> 0 | Inr _ \<Rightarrow> (1::nat)]")
  show "wf (measures [\<lambda>x. case x of Inl (_, cs) \<Rightarrow> length cs | Inr (_, cs) \<Rightarrow> length cs,
                      \<lambda>x. case x of Inl _ \<Rightarrow> 0 | Inr _ \<Rightarrow> (1::nat)])" by simp
qed (auto dest: skip_ws_Cons_shorter read_list_rest_shorter simp: le_less)

subsection \<open>Unfolding rules\<close>

declare read_expr.simps [simp del] read_list.simps [simp del]

lemma read_expr_end [reader_simps]:
  "skip_ws cs = [] \<Longrightarrow> read_expr ops cs = Inl UnexpectedEnd"
  by (simp add: read_expr.simps)

lemma read_expr_open [reader_simps]:
  "skip_ws cs = CHR ''('' # r \<Longrightarrow> read_expr ops cs = read_list ops r"
  by (simp add: read_expr.simps)

lemma read_expr_quote [reader_simps]:
  "skip_ws cs = CHR 0x27 # r \<Longrightarrow>
   read_expr ops cs = (case read_expr ops r of Inl e \<Rightarrow> Inl e | Inr (v, r') \<Rightarrow> Inr (quote_form v, r'))"
  by (simp add: read_expr.simps)

lemma read_expr_atom [reader_simps]:
  "skip_ws cs = c # r \<Longrightarrow> c \<noteq> CHR ''('' \<Longrightarrow> c \<noteq> CHR 0x27 \<Longrightarrow>
   read_expr ops cs = read_atom ops (c # r)"
  by (simp add: read_expr.simps)

lemma read_list_end [reader_simps]:
  "skip_ws cs = [] \<Longrightarrow> read_list ops cs = Inl ExpectedClose"
  by (simp add: read_list.simps)

lemma read_list_close [reader_simps]:
  "skip_ws cs = CHR '')'' # r \<Longrightarrow> read_list ops cs = Inr (NilV, r)"
  by (simp add: read_list.simps)

lemma read_list_elem [reader_simps]:
  "skip_ws cs = c # r \<Longrightarrow> c \<noteq> CHR '')'' \<Longrightarrow>
   read_list ops cs =
     (case read_expr ops (c # r) of
        Inl e \<Rightarrow> Inl e
      | Inr (a, r1) \<Rightarrow> (case read_list ops r1 of Inl e \<Rightarrow> Inl e | Inr (d, r2) \<Rightarrow> Inr (cons a d, r2)))"
  by (simp add: read_list.simps)

lemma skip_ws_idem [simp]: "skip_ws (skip_ws cs) = skip_ws cs"
  by (simp add: skip_ws_def)

lemma read_expr_skip_ws [simp]: "read_expr ops (skip_ws cs) = read_expr ops cs"
  by (simp add: read_expr.simps [of ops "skip_ws cs"] read_expr.simps [of ops cs])

lemma read_list_skip_ws [simp]: "read_list ops (skip_ws cs) = read_list ops cs"
  by (simp add: read_list.simps [of ops "skip_ws cs"] read_list.simps [of ops cs])

text \<open>The definitions a concrete read unfolds, for evaluation by \<open>simp\<close>.\<close>

lemmas reader_eval = read_expr.simps read_list.simps skip_ws_def is_whitespace_def
  read_atom_def is_delim_def parse_f64_def is_f64_literal_def strip_sign_def number_ok_def
  scientific_ok_def inf_nan_ok_def is_ascii_digit_def is_sign_def ascii_upper_def
  quote_form_def cons_def

subsection \<open>Termination and progress\<close>

lemma read_dom_total:
  "read_expr_read_list_dom (Inl (ops, cs))" "read_expr_read_list_dom (Inr (ops, cs))"
  by (induction ops cs and ops cs rule: read_expr_read_list.induct)
     (auto intro: read_expr_read_list.domintros)

text \<open>
  C4 (termination). Every successful read consumes input: the text left after an
  expression is strictly shorter than the text it was read from. So the reader
  terminates on every input, and a loop that reads expressions one after another from
  what the previous read left makes progress.
\<close>

theorem read_consumes:
  "read_expr ops cs = Inr (v, r) \<Longrightarrow> length r < length cs"
  by (rule read_consumes_dom(1) [OF read_dom_total(1)])

end
