(* ===== verification/Printer.thy ===== *)
theory Printer
  imports Values
begin

text \<open>
  The printer of \<open>src/src/printer.rs\<close>, \<open>print_value\<close>. The \<open>while let Cons(car, cdr)\<close>
  loop over a pair chain is the function \<open>print_elems\<close>, called with the first pair's
  head and tail: it prints the head, then continues on a pair tail after a space, stops
  on \<open>Nil\<close>, and prints any other tail after \<open>" . "\<close>. \<open>format!("{}", n)\<close> on a
  number is the field \<open>num_show\<close> of the number operations.
\<close>

function print_value :: "'n numops \<Rightarrow> 'n lisp_value \<Rightarrow> string"
  and print_elems :: "'n numops \<Rightarrow> 'n lisp_value \<Rightarrow> 'n lisp_value \<Rightarrow> string"
where
  "print_value ops NilV = ''()''"
| "print_value ops (Bool b) = (if b then ''#t'' else ''#f'')"
| "print_value ops (Number n) = num_show ops n"
| "print_value ops (Symbol s) = s"
| "print_value ops (Procedure name p) = ''<procedure:'' @ name @ ''>''"
| "print_value ops (Lambda ps body e) = ''<lambda>''"
| "print_value ops (ConsV a d) = ''('' @ print_elems ops a d @ '')''"
| "print_elems ops a d =
     print_value ops a @
     (case d of
        NilV \<Rightarrow> []
      | ConsV a' d' \<Rightarrow> '' '' @ print_elems ops a' d'
      | _ \<Rightarrow> '' . '' @ print_value ops d)"
  by pat_completeness auto
termination
  by (relation "measure (\<lambda>x. case x of Inl (_, v) \<Rightarrow> 2 * size v + 1
                                     | Inr (_, a, d) \<Rightarrow> 2 * (size a + size d) + 2)") auto

text \<open>The tail that ends a pair chain (\<open>Nil\<close> for a proper list).\<close>

fun list_end :: "'n lisp_value \<Rightarrow> 'n lisp_value" where
  "list_end (ConsV a d) = list_end d"
| "list_end v = v"

end
