(* ===== verification/ReadPrint.thy ===== *)
theory ReadPrint
  imports Reader Printer
begin

text \<open>
  Reader and printer together (\<open>src/src/parser.rs\<close>, \<open>src/src/printer.rs\<close>): the
  text \<open>print_value\<close> produces for a value made of \<open>Nil\<close>, numbers, symbols and
  proper lists reads back, through \<open>read_expr\<close>, as the same value, whatever
  follows it after a delimiter. The side conditions are the code's: a symbol reads back
  only if it is non-empty, holds no whitespace or parenthesis, does not start with a
  quote and is not an f64 literal (\<open>symbol_ok\<close>); a number only if \<open>Display\<close>
  prints a literal that parses back to it (\<open>num_reads_back\<close>, true of every
  non-NaN f64). Booleans, procedures, closures and dotted pairs do not read back.
\<close>

definition symbol_ok :: "string \<Rightarrow> bool" where
  "symbol_ok s \<longleftrightarrow> s \<noteq> [] \<and> list_all (\<lambda>c. \<not> is_delim c) s \<and> hd s \<noteq> CHR 0x27 \<and> \<not> is_f64_literal s"

definition lit_char :: "char \<Rightarrow> bool" where
  "lit_char c \<longleftrightarrow> is_ascii_digit c \<or> is_sign c \<or> c \<in> set ''.eE'' \<or> ascii_upper c \<in> set ''INFATY''"

definition num_reads_back :: "'n numops \<Rightarrow> 'n \<Rightarrow> bool" where
  "num_reads_back ops n \<longleftrightarrow>
     is_f64_literal (num_show ops n) \<and> num_of_literal ops (num_show ops n) = n"

fun readable :: "'n numops \<Rightarrow> 'n lisp_value \<Rightarrow> bool" where
  "readable ops NilV = True"
| "readable ops (Number n) = num_reads_back ops n"
| "readable ops (Symbol s) = symbol_ok s"
| "readable ops (ConsV a d) =
     (readable ops a \<and> (case d of NilV \<Rightarrow> True | ConsV _ _ \<Rightarrow> readable ops d | _ \<Rightarrow> False))"
| "readable ops _ = False"

lemma of_char_upper:
  "ascii_upper c = d \<Longrightarrow> of_char d = (of_char c :: nat) \<or> of_char d + 32 = (of_char c :: nat)"
  by (auto simp: ascii_upper_def Let_def of_char_of)

lemma char_eq_code: "c = d \<longleftrightarrow> (of_char c :: nat) = of_char d"
  by (metis char_of_char)

lemma is_delim_code:
  "is_delim c \<longleftrightarrow> (of_char c :: nat) \<in> {9, 10, 11, 12, 13, 32, 133, 160, 40, 41}"
  by (auto simp: is_delim_def is_whitespace_def Let_def char_eq_code [of c])

lemma lit_char_solid: "lit_char c \<Longrightarrow> \<not> is_delim c \<and> c \<noteq> CHR 0x27"
proof -
  have D: "(\<not> is_delim c \<and> c \<noteq> CHR 0x27) \<longleftrightarrow>
      (of_char c :: nat) \<notin> {9, 10, 11, 12, 13, 32, 133, 160, 40, 41, 39}"
    by (auto simp: is_delim_code char_eq_code [of c])
  assume "lit_char c"
  then consider "is_ascii_digit c" | "is_sign c" | "c \<in> set ''.eE''" | "ascii_upper c \<in> set ''INFATY''"
    unfolding lit_char_def by blast
  then show ?thesis
  proof cases
    case 1
    then show ?thesis unfolding D by (simp add: is_ascii_digit_def Let_def)
  next
    case 2
    then show ?thesis unfolding D by (auto simp: is_sign_def)
  next
    case 3
    then show ?thesis unfolding D by auto
  next
    case 4
    then obtain d where d: "ascii_upper c = d" "d \<in> set ''INFATY''" by blast
    then have "of_char d \<in> ({73, 78, 70, 65, 84, 89} :: nat set)" by auto
    with of_char_upper [OF d(1)] show ?thesis unfolding D by auto
  qed
qed

lemma strip_sign_chars:
  "list_all lit_char (strip_sign s) \<Longrightarrow> list_all lit_char s"
  by (cases s) (auto simp: strip_sign_def lit_char_def split: if_splits)

lemma digits_lit_chars: "list_all lit_char (takeWhile is_ascii_digit s)"
  by (auto simp: list_all_iff lit_char_def dest: set_takeWhileD)

lemma scientific_chars: "scientific_ok s \<Longrightarrow> list_all lit_char s"
  by (rule strip_sign_chars) (auto simp: scientific_ok_def Let_def list_all_iff lit_char_def)

lemma number_chars: "number_ok s \<Longrightarrow> list_all lit_char s"
proof -
  assume ok: "number_ok s"
  let ?d = is_ascii_digit
  have s: "s = takeWhile ?d s @ dropWhile ?d s" by simp
  have "list_all lit_char (dropWhile ?d s)"
  proof (cases "dropWhile ?d s")
    case Nil
    show ?thesis by (simp add: Nil)
  next
    case (Cons c r)
    have tail: "list_all lit_char r2" if "r2 = [] \<or> (\<exists>e rest. r2 = e # rest \<and> (e = CHR ''e'' \<or> e = CHR ''E'') \<and> scientific_ok rest)" for r2
      using that by (auto simp: lit_char_def dest: scientific_chars)
    show ?thesis
    proof (cases "c = CHR ''.''")
      case True
      have r: "r = takeWhile ?d r @ dropWhile ?d r" by simp
      from ok Cons True have "list_all lit_char (dropWhile ?d r)"
        by (intro tail) (auto simp: number_ok_def Let_def split: list.splits)
      moreover have "lit_char c" using True by (simp add: lit_char_def)
      ultimately show ?thesis using r digits_lit_chars [of r] Cons
        by (metis list_all_append list.pred_inject(2))
    next
      case False
      from ok Cons False show ?thesis
        by (intro tail) (auto simp: number_ok_def Let_def split: list.splits)
    qed
  qed
  with digits_lit_chars [of s] s show ?thesis by (metis list_all_append)
qed

lemma inf_nan_chars: "inf_nan_ok s \<Longrightarrow> list_all lit_char s"
proof -
  assume ok: "inf_nan_ok s"
  have "ascii_upper c \<in> set ''INFATY''" if "c \<in> set s" for c
  proof -
    from that have "ascii_upper c \<in> set (map ascii_upper s)" by simp
    with ok show ?thesis by (auto simp: inf_nan_ok_def)
  qed
  then show ?thesis by (simp add: list_all_iff lit_char_def)
qed

lemma f64_literal_chars: "is_f64_literal s \<Longrightarrow> list_all lit_char s"
  by (auto simp: is_f64_literal_def intro: strip_sign_chars dest: number_chars inf_nan_chars)

lemma skip_ws_solid:
  "s \<noteq> [] \<Longrightarrow> \<not> is_whitespace (hd s) \<Longrightarrow> skip_ws (s @ rest) = s @ rest"
  by (cases s) (simp_all add: skip_ws_def)

lemma read_atom_append:
  assumes "s \<noteq> []" "list_all (\<lambda>c. \<not> is_delim c) s" "rest = [] \<or> is_delim (hd rest)"
  shows "read_atom ops (s @ rest) =
           (case parse_f64 ops s of Some n \<Rightarrow> Inr (Number n, rest) | None \<Rightarrow> Inr (Symbol s, rest))"
proof -
  let ?P = "\<lambda>c. \<not> is_delim c"
  from assms(2) have all: "\<And>x. x \<in> set s \<Longrightarrow> ?P x" by (simp add: list_all_iff)
  from assms(3) have "takeWhile ?P rest = []" and "dropWhile ?P rest = rest"
    by (cases rest; simp)+
  with all have "takeWhile ?P (s @ rest) = s" and "dropWhile ?P (s @ rest) = rest"
    by (simp_all add: takeWhile_append2 dropWhile_append2)
  with assms(1) show ?thesis by (simp add: read_atom_def Let_def)
qed

lemma readable_print_start:
  "readable ops v \<Longrightarrow> print_value ops v \<noteq> [] \<and>
     \<not> is_whitespace (hd (print_value ops v)) \<and> hd (print_value ops v) \<noteq> CHR '')''"
proof (cases v)
  case (Number n)
  moreover assume "readable ops v"
  ultimately have lit: "is_f64_literal (num_show ops n)" by (simp add: num_reads_back_def)
  then have "num_show ops n \<noteq> []" by (simp add: is_f64_literal_def)
  moreover from lit have "lit_char (hd (num_show ops n))"
    using f64_literal_chars [OF lit] \<open>num_show ops n \<noteq> []\<close> by (cases "num_show ops n") auto
  ultimately show ?thesis using Number lit_char_solid by (auto simp: is_delim_def)
next
  case (Symbol s)
  moreover assume "readable ops v"
  ultimately show ?thesis by (cases s) (auto simp: symbol_ok_def is_delim_def)
qed (auto simp: is_whitespace_def)

lemma read_expr_atom_text:
  assumes "s \<noteq> []" "list_all (\<lambda>c. \<not> is_delim c) s" "hd s \<noteq> CHR 0x27" "rest = [] \<or> is_delim (hd rest)"
  shows "read_expr ops (s @ rest) =
           (case parse_f64 ops s of Some n \<Rightarrow> Inr (Number n, rest) | None \<Rightarrow> Inr (Symbol s, rest))"
proof -
  obtain c r where s: "s = c # r" using assms(1) by (cases s) auto
  with assms(2) have "\<not> is_delim c" by simp
  then have "\<not> is_whitespace c" "c \<noteq> CHR ''(''" by (auto simp: is_delim_def)
  with s assms(3) have "read_expr ops (s @ rest) = read_atom ops (s @ rest)"
    by (simp add: read_expr_atom skip_ws_def)
  with assms read_atom_append show ?thesis by simp
qed

lemma read_list_printed_elems:
  assumes a: "\<And>rest. rest = [] \<or> is_delim (hd rest) \<Longrightarrow> read_expr ops (print_value ops a @ rest) = Inr (a, rest)"
    and d: "\<And>rest. rest = [] \<or> is_delim (hd rest) \<Longrightarrow> read_expr ops (print_value ops d @ rest) = Inr (d, rest)"
    and ok: "readable ops (ConsV a d)" and r: "rest = [] \<or> is_delim (hd rest)"
  shows "read_list ops (print_elems ops a d @ CHR '')'' # rest) = Inr (ConsV a d, rest)"
proof -
  from ok have ra: "readable ops a" by simp
  from readable_print_start [OF ra] obtain c r where pa: "print_value ops a = c # r"
    and c: "\<not> is_whitespace c" "c \<noteq> CHR '')''" by (cases "print_value ops a") auto
  show ?thesis
  proof (cases d)
    case NilV
    have "read_expr ops (print_value ops a @ CHR '')'' # rest) = Inr (a, CHR '')'' # rest)"
      by (rule a) (simp add: is_delim_def)
    with pa c NilV show ?thesis
      by (simp add: read_list_elem read_list_close skip_ws_def is_whitespace_def cons_def)
  next
    case (ConsV a' d')
    let ?tl = "print_elems ops a' d' @ CHR '')'' # rest"
    have "read_expr ops (print_value ops a @ CHR '' '' # ?tl) = Inr (a, CHR '' '' # ?tl)"
      by (rule a) (simp add: is_delim_def is_whitespace_def)
    moreover have "read_list ops (CHR '' '' # ?tl) = Inr (d, rest)"
    proof -
      have "read_expr ops (print_value ops d @ rest) = Inr (d, rest)"
        using r by (rule d)
      then have "read_list ops ?tl = Inr (d, rest)"
        using ConsV by (simp add: read_expr_open skip_ws_def is_whitespace_def)
      moreover have "skip_ws (CHR '' '' # ?tl) = skip_ws ?tl"
        by (simp add: skip_ws_def is_whitespace_def)
      ultimately show ?thesis by (metis read_list_skip_ws)
    qed
    ultimately show ?thesis using pa c ConsV
      by (simp add: read_list_elem skip_ws_def cons_def)
  qed (use ok in simp_all)
qed

lemma read_print_nil:
  "read_expr ops (''()'' @ rest) = Inr (NilV, rest)"
  by (simp add: read_expr_open read_list_close skip_ws_def is_whitespace_def)

lemma read_print_number:
  assumes "num_reads_back ops n" "rest = [] \<or> is_delim (hd rest)"
  shows "read_expr ops (num_show ops n @ rest) = Inr (Number n, rest)"
proof -
  from assms(1) have lit: "is_f64_literal (num_show ops n)" and rb: "num_of_literal ops (num_show ops n) = n"
    by (simp_all add: num_reads_back_def)
  from lit have ne: "num_show ops n \<noteq> []" by (simp add: is_f64_literal_def)
  from f64_literal_chars [OF lit] have "list_all (\<lambda>c. \<not> is_delim c) (num_show ops n)"
    and "hd (num_show ops n) \<noteq> CHR 0x27"
    using lit_char_solid ne by (auto simp: list_all_iff)
  with ne assms(2) lit rb show ?thesis
    by (simp add: read_expr_atom_text parse_f64_def)
qed

text \<open>
  Printing a readable value and reading the text back gives the value again and
  leaves what followed the printed text, provided that text ends there or is followed
  by a delimiter.
\<close>

lemma read_print:
  "readable ops v \<Longrightarrow> rest = [] \<or> is_delim (hd rest) \<Longrightarrow>
   read_expr ops (print_value ops v @ rest) = Inr (v, rest)"
proof (induction v arbitrary: rest)
  case NilV
  then show ?case using read_print_nil by simp
next
  case (Number n)
  then show ?case by (simp add: read_print_number)
next
  case (Symbol s)
  then show ?case by (simp add: symbol_ok_def read_expr_atom_text parse_f64_def)
next
  case (ConsV a d)
  have "read_list ops (print_elems ops a d @ CHR '')'' # rest) = Inr (ConsV a d, rest)"
  proof (rule read_list_printed_elems)
    show "readable ops (ConsV a d)" by (rule ConsV.prems(1))
  next
    show "rest = [] \<or> is_delim (hd rest)" by (rule ConsV.prems(2))
  next
    fix rest' :: string
    assume "rest' = [] \<or> is_delim (hd rest')"
    moreover from ConsV.prems(1) have "readable ops a" by simp
    ultimately show "read_expr ops (print_value ops a @ rest') = Inr (a, rest')"
      by (rule ConsV.IH(1) [rotated])
  next
    fix rest' :: string
    assume r: "rest' = [] \<or> is_delim (hd rest')"
    show "read_expr ops (print_value ops d @ rest') = Inr (d, rest')"
    proof (cases d)
      case (ConsV x y)
      with ConsV.prems(1) have "readable ops d" by simp
      from this r show ?thesis by (rule ConsV.IH(2))
    next
      case NilV
      then show ?thesis using read_print_nil by simp
    qed (use ConsV.prems(1) in simp_all)
  qed
  then show ?case by (simp add: read_expr_open skip_ws_def is_whitespace_def)
qed simp_all

lemma read_list_unclosed:
  "readable ops (ConsV a d) \<Longrightarrow> read_list ops (print_elems ops a d) = Inl ExpectedClose"
proof (induction d arbitrary: a)
  case NilV
  from NilV.prems have ra: "readable ops a" by simp
  from readable_print_start [OF ra] obtain c r where pa: "print_value ops a = c # r"
    and c: "\<not> is_whitespace c" "c \<noteq> CHR '')''" by (cases "print_value ops a") auto
  from read_print [OF ra, of "[]"] pa have "read_expr ops (c # r) = Inr (a, [])" by simp
  with pa c show ?case by (simp add: read_list_elem read_list_end skip_ws_def)
next
  case (ConsV a' d')
  from ConsV.prems have ra: "readable ops a" and rd: "readable ops (ConsV a' d')" by simp_all
  from readable_print_start [OF ra] obtain c r where pa: "print_value ops a = c # r"
    and c: "\<not> is_whitespace c" "c \<noteq> CHR '')''" by (cases "print_value ops a") auto
  let ?tl = "print_elems ops a' d'"
  have "read_expr ops (print_value ops a @ CHR '' '' # ?tl) = Inr (a, CHR '' '' # ?tl)"
    by (rule read_print [OF ra]) (simp add: is_delim_def is_whitespace_def)
  moreover have "read_list ops (CHR '' '' # ?tl) = Inl ExpectedClose"
  proof -
    have "skip_ws (CHR '' '' # ?tl) = skip_ws ?tl" by (simp add: skip_ws_def is_whitespace_def)
    then show ?thesis using ConsV.IH(2) [OF rd] by (metis read_list_skip_ws)
  qed
  ultimately show ?case using pa c by (simp add: read_list_elem skip_ws_def)
qed simp_all

text \<open>
  C2 (roundtrip). Printing a readable value and reading the text back gives the value
  again and leaves what followed the printed text, provided that text ends there or is
  followed by a delimiter. Readable values are nil, numbers whose printed form parses
  back to them, symbols that read as symbols, and proper lists of readable values.
\<close>

theorem read_print_roundtrip:
  "readable ops v \<Longrightarrow> rest = [] \<or> is_delim (hd rest) \<Longrightarrow>
   read_expr ops (print_value ops v @ rest) = Inr (v, rest)"
  by (rule read_print)

text \<open>
  C16 (error). A printed list with its final \<open>)\<close> removed does not read: the reader
  fails with \<open>Expected ')' but got end of input\<close>. (The specification calls this
  condition an unexpected end of input, which is the message of a different error.)
\<close>

theorem read_missing_close:
  "readable ops (ConsV a d) \<Longrightarrow>
   read ops (butlast (print_value ops (ConsV a d))) = Inl (read_error_message ExpectedClose)"
proof -
  assume ok: "readable ops (ConsV a d)"
  have "butlast (print_value ops (ConsV a d)) = CHR ''('' # print_elems ops a d"
    by (simp add: butlast_append del: print_elems.simps)
  with read_list_unclosed [OF ok] show ?thesis
    by (simp add: read_def read_expr_open skip_ws_def is_whitespace_def del: print_elems.simps)
qed

end
