(* ===== verification/Builtins.thy ===== *)
theory Builtins
  imports Values
begin

text \<open>
  The bodies of the arithmetic and comparison procedures of \<open>setup_environment\<close>
  (\<open>src/src/environment.rs\<close>) after their first step \<open>let args = eval_list(args, env)\<close>,
  which the evaluator performs (theory \<open>Eval\<close>): each takes the list of evaluated
  operands. Every procedure walks the operand list with
  \<open>while let Cons(car, cdr) = current\<close> and ignores operands that are not numbers.
\<close>

fun fold_numbers :: "('n \<Rightarrow> 'n \<Rightarrow> 'n) \<Rightarrow> 'n \<Rightarrow> 'n lisp_value \<Rightarrow> 'n" where
  "fold_numbers f acc (ConsV a d) = fold_numbers f (case a of Number n \<Rightarrow> f acc n | _ \<Rightarrow> acc) d"
| "fold_numbers f acc _ = acc"

text \<open>\<open>+\<close>: \<open>result = 0.0; result += n\<close> for every number operand.\<close>

definition prim_add :: "'n numops \<Rightarrow> 'n lisp_value \<Rightarrow> 'n lisp_value" where
  "prim_add ops args = Number (fold_numbers (num_add ops) (num_zero ops) args)"

text \<open>\<open>*\<close>: \<open>result = 1.0; result *= n\<close>.\<close>

definition prim_mul :: "'n numops \<Rightarrow> 'n lisp_value \<Rightarrow> 'n lisp_value" where
  "prim_mul ops args = Number (fold_numbers (num_mul ops) (num_one ops) args)"

text \<open>
  \<open>-\<close>: the first operand, if it is a number, seeds the accumulator and the rest are
  subtracted; otherwise the result is \<open>Number(0.0)\<close>.
\<close>

definition prim_sub :: "'n numops \<Rightarrow> 'n lisp_value \<Rightarrow> 'n lisp_value" where
  "prim_sub ops args =
     (case args of
        ConsV (Number n) rest \<Rightarrow> Number (fold_numbers (num_sub ops) n rest)
      | _ \<Rightarrow> Number (num_zero ops))"

text \<open>\<open>/\<close>: as \<open>-\<close>, but a divisor equal to \<open>0.0\<close> is skipped (\<open>if *n != 0.0 { result /= n }\<close>).\<close>

definition div_step :: "'n numops \<Rightarrow> 'n \<Rightarrow> 'n \<Rightarrow> 'n" where
  "div_step ops acc n = (if num_eq ops n (num_zero ops) then acc else num_div ops acc n)"

definition prim_div :: "'n numops \<Rightarrow> 'n lisp_value \<Rightarrow> 'n lisp_value" where
  "prim_div ops args =
     (case args of
        ConsV (Number n) rest \<Rightarrow> Number (fold_numbers (div_step ops) n rest)
      | _ \<Rightarrow> Number (num_zero ops))"

text \<open>
  \<open>= < >\<close>: the first two operands, both numbers, compared; any other shape gives
  \<open>Bool(false)\<close>. \<open>n1 > n2\<close> on floats is \<open>n2 < n1\<close>.
\<close>

definition prim_compare :: "('n \<Rightarrow> 'n \<Rightarrow> bool) \<Rightarrow> 'n lisp_value \<Rightarrow> 'n lisp_value" where
  "prim_compare rel args =
     (case args of
        ConsV (Number n1) (ConsV (Number n2) _) \<Rightarrow> Bool (rel n1 n2)
      | _ \<Rightarrow> Bool False)"

definition prim_num_eq :: "'n numops \<Rightarrow> 'n lisp_value \<Rightarrow> 'n lisp_value" where
  "prim_num_eq ops = prim_compare (num_eq ops)"

definition prim_less :: "'n numops \<Rightarrow> 'n lisp_value \<Rightarrow> 'n lisp_value" where
  "prim_less ops = prim_compare (num_lt ops)"

definition prim_greater :: "'n numops \<Rightarrow> 'n lisp_value \<Rightarrow> 'n lisp_value" where
  "prim_greater ops = prim_compare (\<lambda>n1 n2. num_lt ops n2 n1)"

text \<open>The procedures that evaluate their operands and then compute on them.\<close>

fun numeric_prim :: "'n numops \<Rightarrow> prim \<Rightarrow> ('n lisp_value \<Rightarrow> 'n lisp_value) option" where
  "numeric_prim ops PAdd = Some (prim_add ops)"
| "numeric_prim ops PSub = Some (prim_sub ops)"
| "numeric_prim ops PMul = Some (prim_mul ops)"
| "numeric_prim ops PDiv = Some (prim_div ops)"
| "numeric_prim ops PNumEq = Some (prim_num_eq ops)"
| "numeric_prim ops PLess = Some (prim_less ops)"
| "numeric_prim ops PGreater = Some (prim_greater ops)"
| "numeric_prim ops _ = None"

text \<open>
  Reference semantics of the numeric procedures on a list of numbers, written as folds
  over the HOL list instead of the \<open>while let\<close> walks over pairs.
\<close>

fun arith_ref :: "'n numops \<Rightarrow> prim \<Rightarrow> 'n list \<Rightarrow> 'n lisp_value" where
  "arith_ref ops PAdd ns = Number (foldl (num_add ops) (num_zero ops) ns)"
| "arith_ref ops PMul ns = Number (foldl (num_mul ops) (num_one ops) ns)"
| "arith_ref ops PSub ns =
     (case ns of [] \<Rightarrow> Number (num_zero ops) | n # r \<Rightarrow> Number (foldl (num_sub ops) n r))"
| "arith_ref ops PDiv ns =
     (case ns of
        [] \<Rightarrow> Number (num_zero ops)
      | n # r \<Rightarrow>
          Number (foldl (\<lambda>acc d. if num_eq ops d (num_zero ops) then acc else num_div ops acc d) n r))"
| "arith_ref ops PNumEq ns = (case ns of n1 # n2 # _ \<Rightarrow> Bool (num_eq ops n1 n2) | _ \<Rightarrow> Bool False)"
| "arith_ref ops PLess ns = (case ns of n1 # n2 # _ \<Rightarrow> Bool (num_lt ops n1 n2) | _ \<Rightarrow> Bool False)"
| "arith_ref ops PGreater ns = (case ns of n1 # n2 # _ \<Rightarrow> Bool (num_lt ops n2 n1) | _ \<Rightarrow> Bool False)"
| "arith_ref ops _ ns = NilV"

subsection \<open>The folds on proper lists of numbers\<close>

text \<open>On a proper list, the walk is a left fold over the numbers of the list.\<close>

definition numbers :: "'n lisp_value list \<Rightarrow> 'n list" where
  "numbers vs = List.map_filter (\<lambda>v. case v of Number n \<Rightarrow> Some n | _ \<Rightarrow> None) vs"

lemma fold_numbers_foldl:
  "fold_numbers f acc v = foldl f acc (numbers (lisp_to_rust_vector v))"
  by (induction f acc v rule: fold_numbers.induct)
     (simp_all add: numbers_def List.map_filter_simps split: lisp_value.splits)

lemma numbers_map_Number [simp]: "numbers (map Number ns) = ns"
  by (induction ns) (simp_all add: numbers_def List.map_filter_simps)

lemma numeric_prim_ref:
  "numeric_prim ops p = Some g \<Longrightarrow> g (rust_to_lisp_list (map Number ns)) = arith_ref ops p ns"
proof (cases p)
  case PSub
  then show "numeric_prim ops p = Some g \<Longrightarrow> ?thesis"
    by (cases ns) (auto simp: prim_sub_def fold_numbers_foldl)
next
  case PDiv
  then show "numeric_prim ops p = Some g \<Longrightarrow> ?thesis"
    by (cases ns) (auto simp: prim_div_def div_step_def [abs_def] fold_numbers_foldl)
next
  case PNumEq
  then show "numeric_prim ops p = Some g \<Longrightarrow> ?thesis"
    by (cases ns rule: remdups_adj.cases) (auto simp: prim_num_eq_def prim_compare_def)
next
  case PLess
  then show "numeric_prim ops p = Some g \<Longrightarrow> ?thesis"
    by (cases ns rule: remdups_adj.cases) (auto simp: prim_less_def prim_compare_def)
next
  case PGreater
  then show "numeric_prim ops p = Some g \<Longrightarrow> ?thesis"
    by (cases ns rule: remdups_adj.cases) (auto simp: prim_greater_def prim_compare_def)
qed (auto simp: prim_add_def prim_mul_def fold_numbers_foldl)

end
