(* ===== verification/RustFunctions.thy ===== *)
theory RustFunctions
  imports Values
begin

text \<open>
  The host side of the foreign-function bridge, \<open>src/src/rust_functions.rs\<close>.
  \<open>RustFunction = fn(Vec<Rc<Value>>) -> Rc<Value>\<close> is a function from the evaluated
  argument vector to a value; the lines it prints with \<open>println!\<close> are returned beside
  the value, so that the model keeps its diagnostics. The thread-local
  \<open>RustFunctionRegistry\<close> (a \<open>HashMap<String, RustFunction>\<close>) is a partial map
  from names to such functions; the evaluator's state holds it (theory \<open>Eval\<close>).
  \<open>rust_call\<close> itself evaluates operands and is defined with the evaluator; its
  lookup-and-invoke step is \<open>rust_call_dispatch\<close> here.
\<close>

type_synonym 'n rust_function = "'n lisp_value list \<Rightarrow> 'n lisp_value \<times> string list"

type_synonym 'n registry = "string \<rightharpoonup> 'n rust_function"

definition registry_register :: "'n registry \<Rightarrow> string \<Rightarrow> 'n rust_function \<Rightarrow> 'n registry" where
  "registry_register reg name f = reg(name \<mapsto> f)"

definition quoted :: "string \<Rightarrow> string" where
  "quoted s = [CHR 0x27] @ s @ [CHR 0x27]"

text \<open>
  \<open>registry.get(func_name)\<close>: on a hit the function is called on the argument vector;
  on a miss \<open>Rust function 'name' not found\<close> is printed and the result stays \<open>Nil\<close>.
\<close>

definition rust_call_dispatch :: "'n registry \<Rightarrow> string \<Rightarrow> 'n lisp_value list \<Rightarrow> 'n lisp_value \<times> string list" where
  "rust_call_dispatch reg name args =
     (case reg name of
        Some f \<Rightarrow> f args
      | None \<Rightarrow> (NilV, [''Rust function '' @ quoted name @ '' not found'']))"

subsection \<open>The example functions of the library\<close>

text \<open>The numbers of an argument vector, or \<open>None\<close> at the first argument that is not one.\<close>

fun all_numbers :: "'n lisp_value list \<Rightarrow> 'n list option" where
  "all_numbers [] = Some []"
| "all_numbers (Number n # vs) = map_option (Cons n) (all_numbers vs)"
| "all_numbers (_ # vs) = None"

definition rust_add :: "'n numops \<Rightarrow> 'n rust_function" where
  "rust_add ops args =
     (if length args < 2 then (NilV, [''rust-add requires at least two arguments''])
      else (case all_numbers args of
              None \<Rightarrow> (NilV, [''rust-add requires numeric arguments''])
            | Some ns \<Rightarrow> (Number (foldl (num_add ops) (num_zero ops) ns), [])))"

definition rust_multiply :: "'n numops \<Rightarrow> 'n rust_function" where
  "rust_multiply ops args =
     (if length args < 2 then (NilV, [''rust-multiply requires at least two arguments''])
      else (case all_numbers args of
              None \<Rightarrow> (NilV, [''rust-multiply requires numeric arguments''])
            | Some ns \<Rightarrow> (Number (foldl (num_mul ops) (num_one ops) ns), [])))"

text \<open>\<open>rust_length\<close> counts the pairs of the chain, stopping at any non-pair tail.\<close>

definition rust_length :: "'n numops \<Rightarrow> 'n rust_function" where
  "rust_length ops args =
     (if length args \<noteq> 1 then (NilV, [''rust-length requires exactly one argument''])
      else (Number (num_of_nat ops (length (lisp_to_rust_vector (hd args)))), []))"

text \<open>
  \<open>str::to_uppercase\<close> on the characters of the model (code points below U+0100):
  ASCII and Latin-1 letters map to their capitals and \<open>\<ss>\<close> (U+00DF) to \<open>SS\<close>.
  U+00B5 and U+00FF, whose capitals lie outside the block, are left unchanged.
\<close>

definition upper_char :: "char \<Rightarrow> string" where
  "upper_char c =
     (let n = (of_char c :: nat) in
      if (97 \<le> n \<and> n \<le> 122) \<or> (224 \<le> n \<and> n \<le> 254 \<and> n \<noteq> 247) then [char_of (n - 32)]
      else if n = 223 then ''SS''
      else [c])"

definition to_uppercase :: "string \<Rightarrow> string" where
  "to_uppercase s = concat (map upper_char s)"

definition rust_uppercase :: "'n rust_function" where
  "rust_uppercase args =
     (if length args \<noteq> 1 then (NilV, [''rust-uppercase requires exactly one argument''])
      else (case hd args of
              Symbol s \<Rightarrow> (Symbol (to_uppercase s), [])
            | _ \<Rightarrow> (NilV, [''rust-uppercase requires a symbol argument''])))"

lemma all_numbers_Some:
  "all_numbers vs = Some ns \<longleftrightarrow> vs = map Number ns"
  by (induction vs arbitrary: ns rule: all_numbers.induct) auto

end
