(* ===== verification/Eval.thy ===== *)
theory Eval
  imports Builtins RustFunctions
begin

text \<open>
  The evaluator of \<open>src/src/eval.rs\<close> (\<open>eval\<close>, \<open>eval_list\<close>, \<open>bind_params\<close>), the
  procedures of \<open>setup_environment\<close> (\<open>src/src/environment.rs\<close>) and \<open>rust_call\<close>
  (\<open>src/src/rust_functions.rs\<close>).

  State. \<open>Environment = RefCell<HashMap<String, Rc<Value>>>\<close> is shared through
  \<open>Rc\<close>: a closure holds its environment by reference and \<open>define\<close> mutates the map
  in place. The model keeps every environment ever created in a store, the list
  \<open>envs\<close>; an \<open>Rc<Environment>\<close> is an index into it, a new environment is appended
  (\<open>alloc_env\<close>), and nothing is removed (reference counting frees maps nobody can
  reach, which no program can observe). The state also holds the thread-local registry of
  Rust functions and the lines printed to standard output.

  Recursion. \<open>eval\<close> does not terminate on every input (a closure may call itself
  forever; the Rust code then exhausts the native stack). The three mutually recursive
  functions take fuel: every call spends one unit, and running out is \<open>None\<close>. More fuel
  never changes a result (\<open>eval_fuel_mono\<close>), so the result of a terminating
  evaluation is the \<open>Some\<close> value of any sufficient fuel, and a computation whose
  evaluation is \<open>None\<close> for every fuel does not terminate.

  Procedures. \<open>Procedure(name, f)\<close> receives the unevaluated operand list and the
  current environment; \<open>apply_prim\<close> is the body of each closure \<open>f\<close> of the library.
\<close>

type_synonym 'n env = "string \<rightharpoonup> 'n lisp_value"

record 'n lisp_state =
  envs :: "'n env list"
  rust_fns :: "'n registry"
  stdout :: "string list"

definition env_get :: "'n lisp_state \<Rightarrow> envref \<Rightarrow> string \<Rightarrow> 'n lisp_value option" where
  "env_get s e k = (envs s ! e) k"

definition env_insert :: "'n lisp_state \<Rightarrow> envref \<Rightarrow> string \<Rightarrow> 'n lisp_value \<Rightarrow> 'n lisp_state" where
  "env_insert s e k v = s\<lparr>envs := (envs s)[e := (envs s ! e)(k \<mapsto> v)]\<rparr>"

definition alloc_env :: "'n env \<Rightarrow> 'n lisp_state \<Rightarrow> envref \<times> 'n lisp_state" where
  "alloc_env m s = (length (envs s), s\<lparr>envs := envs s @ [m]\<rparr>)"

definition emit :: "string list \<Rightarrow> 'n lisp_state \<Rightarrow> 'n lisp_state" where
  "emit msgs s = s\<lparr>stdout := stdout s @ msgs\<rparr>"

subsection \<open>Parameter binding\<close>

text \<open>
  \<open>bind_params(params, args, env, outer_env)\<close> writes into the fresh call environment
  \<open>env\<close>; \<open>outer_env\<close> is the closure's environment and is only read, so the model
  passes its map. The cases in the order of the Rust \<open>match\<close>:
  \<^item> \<open>(Nil, Nil)\<close>: every binding of \<open>outer\<close> is inserted (\<open>target ++ outer\<close>);
  \<^item> \<open>(Symbol name, _)\<close>: \<open>name\<close> is bound to the whole argument list, then every
    binding of \<open>outer\<close> except \<open>name\<close> is inserted;
  \<^item> \<open>(Cons, Cons)\<close>: the heads are bound, then the tails, into the same target;
  \<^item> anything else leaves the target as it is.
\<close>

fun bind_params :: "'n lisp_value \<Rightarrow> 'n lisp_value \<Rightarrow> 'n env \<Rightarrow> 'n env \<Rightarrow> 'n env" where
  "bind_params NilV NilV target outer = target ++ outer"
| "bind_params (Symbol name) args target outer = target(name \<mapsto> args) ++ (outer |` (- {name}))"
| "bind_params (ConsV pa pd) (ConsV aa ad) target outer =
     bind_params pd ad (bind_params pa aa target outer) outer"
| "bind_params _ _ target outer = target"

subsection \<open>The evaluator\<close>

fun eval :: "'n numops \<Rightarrow> nat \<Rightarrow> 'n lisp_value \<Rightarrow> envref \<Rightarrow> 'n lisp_state \<Rightarrow>
    ('n lisp_value \<times> 'n lisp_state) option"
  and eval_list :: "'n numops \<Rightarrow> nat \<Rightarrow> 'n lisp_value \<Rightarrow> envref \<Rightarrow> 'n lisp_state \<Rightarrow>
    ('n lisp_value \<times> 'n lisp_state) option"
  and apply_prim :: "'n numops \<Rightarrow> nat \<Rightarrow> prim \<Rightarrow> 'n lisp_value \<Rightarrow> envref \<Rightarrow> 'n lisp_state \<Rightarrow>
    ('n lisp_value \<times> 'n lisp_state) option"
where
  "eval ops 0 expr e s = None"
| "eval ops (Suc n) expr e s =
     (case expr of
        Symbol x \<Rightarrow> Some (case env_get s e x of Some v \<Rightarrow> v | None \<Rightarrow> NilV, s)
      | ConsV _ _ \<Rightarrow>
          (case eval ops n (car expr) e s of
             None \<Rightarrow> None
           | Some (f, s1) \<Rightarrow>
               (case f of
                  Procedure _ p \<Rightarrow> apply_prim ops n p (cdr expr) e s1
                | Lambda params body cenv \<Rightarrow>
                    (case eval_list ops n (cdr expr) e s1 of
                       None \<Rightarrow> None
                     | Some (args, s2) \<Rightarrow>
                         (let (ne, s3) = alloc_env (bind_params params args Map.empty (envs s2 ! cenv)) s2
                          in eval ops n body ne s3))
                | _ \<Rightarrow> Some (NilV, s1)))
      | _ \<Rightarrow> Some (expr, s))"
| "eval_list ops 0 exprs e s = None"
| "eval_list ops (Suc n) exprs e s =
     (case exprs of
        NilV \<Rightarrow> Some (NilV, s)
      | _ \<Rightarrow>
          (case eval ops n (car exprs) e s of
             None \<Rightarrow> None
           | Some (v, s1) \<Rightarrow>
               (case eval_list ops n (cdr exprs) e s1 of
                  None \<Rightarrow> None
                | Some (vs, s2) \<Rightarrow> Some (cons v vs, s2))))"
| "apply_prim ops 0 p args e s = None"
| "apply_prim ops (Suc n) p args e s =
     (case p of
        PQuote \<Rightarrow> Some (car args, s)
      | PAdd \<Rightarrow> map_option (apfst (prim_add ops)) (eval_list ops n args e s)
      | PDefine \<Rightarrow>
          (case car args of
             Symbol name \<Rightarrow>
               (case eval ops n (car (cdr args)) e s of
                  None \<Rightarrow> None
                | Some (v, s1) \<Rightarrow> Some (v, env_insert s1 e name v))
           | _ \<Rightarrow> Some (NilV, s))
      | PLambda \<Rightarrow> Some (Lambda (car args) (car (cdr args)) e, s)
      | PSub \<Rightarrow> map_option (apfst (prim_sub ops)) (eval_list ops n args e s)
      | PMul \<Rightarrow> map_option (apfst (prim_mul ops)) (eval_list ops n args e s)
      | PDiv \<Rightarrow> map_option (apfst (prim_div ops)) (eval_list ops n args e s)
      | PNumEq \<Rightarrow> map_option (apfst (prim_num_eq ops)) (eval_list ops n args e s)
      | PLess \<Rightarrow> map_option (apfst (prim_less ops)) (eval_list ops n args e s)
      | PGreater \<Rightarrow> map_option (apfst (prim_greater ops)) (eval_list ops n args e s)
      | PRustCall \<Rightarrow>
          (case car args of
             Symbol fname \<Rightarrow>
               (case eval_list ops n (cdr args) e s of
                  None \<Rightarrow> None
                | Some (vs, s1) \<Rightarrow>
                    (let (r, msgs) = rust_call_dispatch (rust_fns s1) fname (lisp_to_rust_vector vs)
                     in Some (r, emit msgs s1)))
           | _ \<Rightarrow> Some (NilV, emit [''Expected function name as first argument''] s)))"

subsection \<open>Start-up\<close>

text \<open>The global environment \<open>setup_environment\<close> builds.\<close>

definition global_bindings :: "'n env" where
  "global_bindings =
     [''nil'' \<mapsto> NilV, ''#t'' \<mapsto> Bool True,
      ''quote'' \<mapsto> Procedure ''quote'' PQuote, ''+'' \<mapsto> Procedure ''+'' PAdd,
      ''define'' \<mapsto> Procedure ''define'' PDefine, ''lambda'' \<mapsto> Procedure ''lambda'' PLambda,
      ''-'' \<mapsto> Procedure ''-'' PSub, ''*'' \<mapsto> Procedure ''*'' PMul, ''/'' \<mapsto> Procedure ''/'' PDiv,
      ''='' \<mapsto> Procedure ''='' PNumEq, ''<'' \<mapsto> Procedure ''<'' PLess,
      ''>'' \<mapsto> Procedure ''>'' PGreater]"

definition setup_environment :: "'n lisp_state \<Rightarrow> envref \<times> 'n lisp_state" where
  "setup_environment s = alloc_env global_bindings s"

definition setup_rust_functions :: "envref \<Rightarrow> 'n lisp_state \<Rightarrow> 'n lisp_state" where
  "setup_rust_functions e s = env_insert s e ''rust-call'' (Procedure ''rust-call'' PRustCall)"

definition register_rust_function :: "string \<Rightarrow> 'n rust_function \<Rightarrow> 'n lisp_state \<Rightarrow> 'n lisp_state" where
  "register_rust_function name f s = s\<lparr>rust_fns := registry_register (rust_fns s) name f\<rparr>"

text \<open>The process at start: no environment yet, an empty registry, nothing printed.\<close>

definition init_state :: "'n lisp_state" where
  "init_state = \<lparr>envs = [], rust_fns = Map.empty, stdout = []\<rparr>"

end
