(* ===== verification/EvalFacts.thy ===== *)
theory EvalFacts
  imports Eval
begin

text \<open>
  General properties of the evaluator of \<open>src/src/eval.rs\<close>:
  \<^item> fuel: more fuel never changes a result (\<open>eval_fuel_mono_all\<close>);
  \<^item> frame: evaluating in environment \<open>e\<close> writes only \<open>e\<close> and the environments the
    evaluation itself creates, never touches the registry, and only appends to the store
    (\<open>extends\<close>, \<open>eval_extends_all\<close>);
  \<^item> parameter binding of a flat parameter list of matching length
    (\<open>bind_params_flat\<close>).
\<close>

definition extends :: "envref \<Rightarrow> 'n lisp_state \<Rightarrow> 'n lisp_state \<Rightarrow> bool" where
  "extends e s s' \<longleftrightarrow> length (envs s) \<le> length (envs s') \<and> rust_fns s' = rust_fns s \<and>
     (\<forall>i < length (envs s). i \<noteq> e \<longrightarrow> envs s' ! i = envs s ! i)"

lemma eval_step_mono:
  assumes Ee: "\<And>x e s. eval ops n x e s \<noteq> None \<Longrightarrow> eval ops m x e s = eval ops n x e s"
   and El: "\<And>x e s. eval_list ops n x e s \<noteq> None \<Longrightarrow> eval_list ops m x e s = eval_list ops n x e s"
   and Ep: "\<And>p x e s. apply_prim ops n p x e s \<noteq> None \<Longrightarrow> apply_prim ops m p x e s = apply_prim ops n p x e s"
  shows "eval ops (Suc n) x e s = Some r \<Longrightarrow> eval ops (Suc m) x e s = Some r"
proof (cases x)
  case (ConsV a d)
  assume h: "eval ops (Suc n) x e s = Some r"
  then obtain f s1 where f: "eval ops n a e s = Some (f, s1)"
    using ConsV by (auto split: option.split_asm)
  then have fm: "eval ops m a e s = Some (f, s1)" using Ee by simp
  show ?thesis
  proof (cases f)
    case (Lambda ps body cenv)
    with h ConsV f obtain args s2 where l: "eval_list ops n d e s1 = Some (args, s2)"
      by (auto split: option.split_asm)
    then have lm: "eval_list ops m d e s1 = Some (args, s2)" using El by simp
    from h ConsV f l Lambda have "eval ops n body (length (envs s2)) (snd (alloc_env (bind_params ps args Map.empty (envs s2 ! cenv)) s2)) = Some r"
      by (simp add: alloc_env_def)
    with Ee have "eval ops m body (length (envs s2)) (snd (alloc_env (bind_params ps args Map.empty (envs s2 ! cenv)) s2)) = Some r"
      by simp
    with ConsV fm lm Lambda show ?thesis by (simp add: alloc_env_def)
  next
    case (Procedure nm p)
    with h ConsV f have "apply_prim ops n p d e s1 = Some r" by simp
    with Ep have "apply_prim ops m p d e s1 = Some r" by simp
    with ConsV fm Procedure show ?thesis by simp
  qed (use h ConsV f fm in auto)
qed simp_all
lemma eval_list_step_mono:
  assumes Ee: "\<And>x e s. eval ops n x e s \<noteq> None \<Longrightarrow> eval ops m x e s = eval ops n x e s"
   and El: "\<And>x e s. eval_list ops n x e s \<noteq> None \<Longrightarrow> eval_list ops m x e s = eval_list ops n x e s"
  shows "eval_list ops (Suc n) x e s = Some r \<Longrightarrow> eval_list ops (Suc m) x e s = Some r"
  by (auto simp: Ee El split: lisp_value.split_asm option.split_asm prod.split_asm)

lemma apply_prim_step_mono:
  assumes Ee: "\<And>x e s. eval ops n x e s \<noteq> None \<Longrightarrow> eval ops m x e s = eval ops n x e s"
   and El: "\<And>x e s. eval_list ops n x e s \<noteq> None \<Longrightarrow> eval_list ops m x e s = eval_list ops n x e s"
  shows "apply_prim ops (Suc n) p x e s = Some r \<Longrightarrow> apply_prim ops (Suc m) p x e s = Some r"
proof (cases p)
  case PDefine
  assume "apply_prim ops (Suc n) p x e s = Some r"
  with PDefine show ?thesis by (auto simp: Ee split: lisp_value.split_asm option.split_asm)
next
  case PRustCall
  assume "apply_prim ops (Suc n) p x e s = Some r"
  with PRustCall show ?thesis by (auto simp: El split: lisp_value.split_asm option.split_asm)
qed (auto simp: El)
lemma eval_fuel_mono_all:
  "(\<forall>m x e s r. n \<le> m \<longrightarrow> eval ops n x e s = Some r \<longrightarrow> eval ops m x e s = Some r) \<and>
   (\<forall>m x e s r. n \<le> m \<longrightarrow> eval_list ops n x e s = Some r \<longrightarrow> eval_list ops m x e s = Some r) \<and>
   (\<forall>m p x e s r. n \<le> m \<longrightarrow> apply_prim ops n p x e s = Some r \<longrightarrow> apply_prim ops m p x e s = Some r)"
proof (induction n)
  case 0
  then show ?case by simp
next
  case (Suc n)
  have step: "(\<forall>x e s r. eval ops (Suc n) x e s = Some r \<longrightarrow> eval ops (Suc m) x e s = Some r) \<and>
     (\<forall>x e s r. eval_list ops (Suc n) x e s = Some r \<longrightarrow> eval_list ops (Suc m) x e s = Some r) \<and>
     (\<forall>p x e s r. apply_prim ops (Suc n) p x e s = Some r \<longrightarrow> apply_prim ops (Suc m) p x e s = Some r)"
    if nm: "n \<le> m" for m
  proof -
    have Ee: "eval ops n x e s \<noteq> None \<Longrightarrow> eval ops m x e s = eval ops n x e s" for x e s
    proof -
      assume "eval ops n x e s \<noteq> None"
      then obtain r where r: "eval ops n x e s = Some r" by blast
      with Suc.IH nm have "eval ops m x e s = Some r" by blast
      with r show ?thesis by simp
    qed
    have El: "eval_list ops n x e s \<noteq> None \<Longrightarrow> eval_list ops m x e s = eval_list ops n x e s" for x e s
    proof -
      assume "eval_list ops n x e s \<noteq> None"
      then obtain r where r: "eval_list ops n x e s = Some r" by blast
      with Suc.IH nm have "eval_list ops m x e s = Some r" by blast
      with r show ?thesis by simp
    qed
    have Ep: "apply_prim ops n p x e s \<noteq> None \<Longrightarrow> apply_prim ops m p x e s = apply_prim ops n p x e s" for p x e s
    proof -
      assume "apply_prim ops n p x e s \<noteq> None"
      then obtain r where r: "apply_prim ops n p x e s = Some r" by blast
      with Suc.IH nm have "apply_prim ops m p x e s = Some r" by blast
      with r show ?thesis by simp
    qed
    show ?thesis
      using eval_step_mono [of ops n m, OF Ee El Ep] eval_list_step_mono [of ops n m, OF Ee El]
        apply_prim_step_mono [of ops n m, OF Ee El]
      by blast
  qed
  show ?case
  proof (intro conjI allI impI)
    fix m x e s r
    assume "Suc n \<le> m" "eval ops (Suc n) x e s = Some r"
    then obtain m' where "m = Suc m'" "n \<le> m'" by (cases m) auto
    from step [OF \<open>n \<le> m'\<close>] \<open>eval ops (Suc n) x e s = Some r\<close>
    have "eval ops (Suc m') x e s = Some r" by blast
    with \<open>m = Suc m'\<close> show "eval ops m x e s = Some r" by simp
  next
    fix m x e s r
    assume "Suc n \<le> m" "eval_list ops (Suc n) x e s = Some r"
    then obtain m' where "m = Suc m'" "n \<le> m'" by (cases m) auto
    from step [OF \<open>n \<le> m'\<close>] \<open>eval_list ops (Suc n) x e s = Some r\<close>
    have "eval_list ops (Suc m') x e s = Some r" by blast
    with \<open>m = Suc m'\<close> show "eval_list ops m x e s = Some r" by simp
  next
    fix m p x e s r
    assume "Suc n \<le> m" "apply_prim ops (Suc n) p x e s = Some r"
    then obtain m' where "m = Suc m'" "n \<le> m'" by (cases m) auto
    from step [OF \<open>n \<le> m'\<close>] \<open>apply_prim ops (Suc n) p x e s = Some r\<close>
    have "apply_prim ops (Suc m') p x e s = Some r" by blast
    with \<open>m = Suc m'\<close> show "apply_prim ops m p x e s = Some r" by simp
  qed
qed

lemma extends_refl [simp]: "extends e s s"
  by (simp add: extends_def)

lemma extends_trans: "extends e s1 s2 \<Longrightarrow> extends e s2 s3 \<Longrightarrow> extends e s1 s3"
  by (auto simp: extends_def)

lemma extends_env_insert [simp]: "extends e s (env_insert s e k v)"
  by (auto simp: extends_def env_insert_def)

lemma extends_emit [simp]: "extends e s (emit msgs s)"
  by (simp add: extends_def emit_def)

lemma extends_call:
  "extends (length (envs s)) (s\<lparr>envs := envs s @ [m]\<rparr>) s' \<Longrightarrow> extends e s s'"
  by (auto simp: extends_def nth_append)

lemma extends_call_chain:
  "extends e s s2 \<Longrightarrow> extends (length (envs s2)) (s2\<lparr>envs := envs s2 @ [m]\<rparr>) s' \<Longrightarrow> extends e s s'"
  by (blast intro: extends_trans extends_call)

lemma eval_extends_all:
  "(\<forall>x e s r. eval ops n x e s = Some r \<longrightarrow> extends e s (snd r)) \<and>
   (\<forall>x e s r. eval_list ops n x e s = Some r \<longrightarrow> extends e s (snd r)) \<and>
   (\<forall>p x e s r. apply_prim ops n p x e s = Some r \<longrightarrow> extends e s (snd r))"
proof (induction n)
  case 0
  then show ?case by simp
next
  case (Suc n)
  then have IHe: "\<And>x e s r. eval ops n x e s = Some r \<Longrightarrow> extends e s (snd r)"
    and IHl: "\<And>x e s r. eval_list ops n x e s = Some r \<Longrightarrow> extends e s (snd r)"
    and IHp: "\<And>p x e s r. apply_prim ops n p x e s = Some r \<Longrightarrow> extends e s (snd r)"
    by blast+
  have "extends e s (snd r)" if "eval ops (Suc n) x e s = Some r" for x e s r
    using that
    by (auto simp: Let_def alloc_env_def split: lisp_value.split_asm option.split_asm prod.split_asm
        dest!: IHe IHl IHp intro: extends_trans)
       (blast intro: extends_call_chain extends_trans)
  moreover have "extends e s (snd r)" if "eval_list ops (Suc n) x e s = Some r" for x e s r
    using that
    by (auto split: lisp_value.split_asm option.split_asm prod.split_asm dest!: IHe IHl intro: extends_trans)
  moreover have "extends e s (snd r)" if "apply_prim ops (Suc n) p x e s = Some r" for p x e s r
    using that
    by (cases p) (auto simp: Let_def split: lisp_value.split_asm option.split_asm prod.split_asm
        dest!: IHe IHl intro: extends_trans)
  ultimately show ?case by blast
qed

lemma map_add_upd_shift: "(m ++ p)(x \<mapsto> v) = m(x \<mapsto> v) ++ p(x := None)"
  by (rule ext) (simp add: map_add_def split: option.splits)

lemma map_upds_add_hidden:
  "dom p \<subseteq> dom q \<Longrightarrow> (m ++ p)(xs [\<mapsto>] vs) ++ q = m(xs [\<mapsto>] vs) ++ q"
proof (induction xs arbitrary: m p vs)
  case Nil
  show ?case
  proof (rule ext)
    fix k
    show "((m ++ p)([] [\<mapsto>] vs) ++ q) k = (m([] [\<mapsto>] vs) ++ q) k"
      using Nil.prems by (cases "q k") (auto simp: map_add_def split: option.splits)
  qed
next
  case (Cons x xs)
  show ?case
  proof (cases vs)
    case Nil
    then show ?thesis using Cons.IH [of p m "[]"] Cons.prems by simp
  next
    case vs: (Cons v vs')
    have "dom (p(x := None)) \<subseteq> dom q" using Cons.prems by auto
    then have h: "(m(x \<mapsto> v) ++ p(x := None))(xs [\<mapsto>] vs') ++ q = (m(x \<mapsto> v))(xs [\<mapsto>] vs') ++ q"
      by (rule Cons.IH)
    show ?thesis by (simp only: vs map_upds_Cons map_add_upd_shift h)
  qed
qed

text \<open>
  Binding a flat parameter list \<open>(x1 ... xk)\<close> to as many arguments: each
  \<open>Symbol\<close> case copies the outer environment over the parameters bound before it, and
  the final \<open>(Nil, Nil)\<close> case copies it over all of them.
\<close>

lemma bind_params_flat:
  "length names = length args \<Longrightarrow>
   bind_params (rust_to_lisp_list (map Symbol names)) (rust_to_lisp_list args) t outer =
   t(names [\<mapsto>] args) ++ outer"
proof (induction names arbitrary: args t)
  case Nil
  then show ?case by simp
next
  case (Cons x xs)
  then obtain a as where args: "args = a # as" and len: "length xs = length as" by (cases args) auto
  have "dom (outer |` (- {x})) \<subseteq> dom outer" by auto
  then show ?case
    using Cons.IH [OF len, of "t(x \<mapsto> a) ++ outer |` (- {x})"] args
    by (simp add: map_upds_add_hidden)
qed

lemma length_env_insert [simp]: "length (envs (env_insert s e k v)) = length (envs s)"
  by (simp add: env_insert_def)

lemma length_emit [simp]: "length (envs (emit msgs s)) = length (envs s)"
  and rust_fns_emit [simp]: "rust_fns (emit msgs s) = rust_fns s"
  by (simp_all add: emit_def)

lemma eval_grows: "eval ops n x e s = Some (v, s') \<Longrightarrow> length (envs s) \<le> length (envs s')"
  using eval_extends_all [where n = n and ops = ops] by (fastforce simp: extends_def)

lemma eval_list_grows: "eval_list ops n x e s = Some (v, s') \<Longrightarrow> length (envs s) \<le> length (envs s')"
  using eval_extends_all [where n = n and ops = ops] by (fastforce simp: extends_def)

subsection \<open>Properties of the evaluator\<close>

text \<open>
  C1 (safety). Evaluating in environment \<open>e\<close> changes no other environment that existed
  before: \<open>define\<close> writes only the environment it is evaluated in, and a closure call
  writes only into the fresh call environment and its descendants, never back into the
  closure's environment or the caller's.
\<close>

theorem eval_frame:
  "eval ops n x e s = Some (v, s') \<Longrightarrow> i < length (envs s) \<Longrightarrow> i \<noteq> e \<Longrightarrow>
   envs s' ! i = envs s ! i"
  using eval_extends_all [where n = n and ops = ops] by (fastforce simp: extends_def)

text \<open>
  Fuel only bounds the recursion depth: an evaluation that returns with some fuel returns
  the same value and state with any larger fuel.
\<close>

lemma eval_fuel_mono:
  "eval ops n x e s = Some r \<Longrightarrow> n \<le> m \<Longrightarrow> eval ops m x e s = Some r"
  using eval_fuel_mono_all [where n = n and ops = ops] by blast

end
