(* ===== verification/EvalSemantics.thy ===== *)
theory EvalSemantics
  imports EvalFacts
begin

text \<open>
  The behaviour of the evaluator on the forms a program is written in: calls of the
  numeric procedures, \<open>define\<close>, closure calls, \<open>quote\<close> and \<open>rust-call\<close>, each stated
  for an environment in which the operator's name is bound to the procedure of
  \<open>setup_environment\<close>, with enough fuel. Operands are taken self-evaluating (numbers,
  booleans, \<open>Nil\<close>, procedures, closures), which is what the numeric procedures and the
  Rust functions are called on once their operands are evaluated.
\<close>

fun self_evaluating :: "'n lisp_value \<Rightarrow> bool" where
  "self_evaluating (Symbol _) = False"
| "self_evaluating (ConsV _ _) = False"
| "self_evaluating _ = True"

lemma eval_self [eval_simps]: "self_evaluating v \<Longrightarrow> eval ops (Suc n) v e s = Some (v, s)"
  by (cases v) simp_all

lemma eval_symbol_bound [eval_simps]:
  "env_get s e x = Some v \<Longrightarrow> eval ops (Suc n) (Symbol x) e s = Some (v, s)"
  by simp

lemma eval_list_self [eval_simps]:
  "list_all self_evaluating vs \<Longrightarrow> length vs < n \<Longrightarrow>
   eval_list ops n (rust_to_lisp_list vs) e s = Some (rust_to_lisp_list vs, s)"
proof (induction vs arbitrary: n)
  case Nil
  then obtain m where "n = Suc m" by (cases n) auto
  then show ?case by simp
next
  case (Cons v vs)
  then obtain m where n: "n = Suc m" and m: "length vs < m" by (cases n) auto
  then obtain k where k: "m = Suc k" by (cases m) auto
  have hd: "eval ops m v e s = Some (v, s)"
    unfolding k by (rule eval_self) (use Cons.prems in simp)
  from Cons m have tl: "eval_list ops m (rust_to_lisp_list vs) e s = Some (rust_to_lisp_list vs, s)"
    by simp
  from n hd tl show ?case by (simp add: cons_def)
qed

lemma eval_app_prim [eval_simps]:
  "env_get s e f = Some (Procedure nm p) \<Longrightarrow>
   eval ops (Suc (Suc n)) (ConsV (Symbol f) args) e s = apply_prim ops (Suc n) p args e s"
  by simp

lemma apply_numeric_prim:
  "numeric_prim ops p = Some g \<Longrightarrow>
   apply_prim ops (Suc n) p args e s = map_option (apfst g) (eval_list ops n args e s)"
  by (cases p) simp_all

text \<open>A numeric procedure called on numbers computes the reference fold.\<close>

lemma eval_numeric_prim_call:
  "env_get s e f = Some (Procedure nm p) \<Longrightarrow> numeric_prim ops p \<noteq> None \<Longrightarrow> length ns < n \<Longrightarrow>
   eval ops (Suc (Suc n)) (ConsV (Symbol f) (rust_to_lisp_list (map Number ns))) e s =
   Some (arith_ref ops p ns, s)"
proof -
  assume f: "env_get s e f = Some (Procedure nm p)" and p: "numeric_prim ops p \<noteq> None"
    and n: "length ns < n"
  from p obtain g where g: "numeric_prim ops p = Some g" by auto
  have "list_all self_evaluating (map Number ns)" by (induction ns) simp_all
  with n have l: "eval_list ops n (rust_to_lisp_list (map Number ns)) e s =
      Some (rust_to_lisp_list (map Number ns), s)"
    by (simp add: eval_list_self)
  have "eval ops (Suc (Suc n)) (ConsV (Symbol f) (rust_to_lisp_list (map Number ns))) e s =
      apply_prim ops (Suc n) p (rust_to_lisp_list (map Number ns)) e s"
    by (rule eval_app_prim [OF f])
  also have "\<dots> = map_option (apfst g) (eval_list ops n (rust_to_lisp_list (map Number ns)) e s)"
    by (rule apply_numeric_prim [OF g])
  also have "\<dots> = Some (arith_ref ops p ns, s)"
    by (simp add: l numeric_prim_ref [OF g])
  finally show ?thesis .
qed

text \<open>
  C6 (equivalence). A call \<open>(op n1 ... nk)\<close> of \<open>+ - * / = < >\<close> on numbers evaluates
  to the reference fold over the numbers (\<open>arith_ref\<close>) and changes no state: \<open>+\<close>
  and \<open>*\<close> fold from \<open>0\<close> and \<open>1\<close>, \<open>-\<close> and \<open>/\<close> fold from the first operand (or
  give \<open>0\<close> with none), \<open>/\<close> skips a divisor equal to zero, and the comparisons look at
  the first two operands only and are false with fewer.
\<close>

theorem eval_numeric_call:
  "env_get s e f = Some (Procedure nm p) \<Longrightarrow> numeric_prim ops p \<noteq> None \<Longrightarrow> length ns < n \<Longrightarrow>
   eval ops (Suc (Suc n)) (ConsV (Symbol f) (rust_to_lisp_list (map Number ns))) e s =
   Some (arith_ref ops p ns, s)"
  by (rule eval_numeric_prim_call)

text \<open>A closure call whose operands are self-evaluating.\<close>

lemma eval_lambda_call:
  "eval ops n f e s = Some (Lambda ps body ce, s1) \<Longrightarrow>
   list_all self_evaluating vs \<Longrightarrow> length vs < n \<Longrightarrow>
   eval ops (Suc n) (ConsV f (rust_to_lisp_list vs)) e s =
   eval ops n body (length (envs s1))
     (s1\<lparr>envs := envs s1 @ [bind_params ps (rust_to_lisp_list vs) Map.empty (envs s1 ! ce)]\<rparr>)"
proof -
  assume f: "eval ops n f e s = Some (Lambda ps body ce, s1)"
    and vs: "list_all self_evaluating vs" "length vs < n"
  from vs have l: "eval_list ops n (rust_to_lisp_list vs) e s1 = Some (rust_to_lisp_list vs, s1)"
    by (rule eval_list_self)
  show ?thesis by (simp add: f l alloc_env_def)
qed

text \<open>
  C7 (functional). \<open>(define name x)\<close> evaluates \<open>x\<close> once, returns its value and
  binds the name to it in the environment the form is evaluated in, where a following
  lookup finds it; operands after the second are ignored.
\<close>

theorem eval_define:
  "env_get s e d = Some (Procedure nm PDefine) \<Longrightarrow> e < length (envs s) \<Longrightarrow>
   eval ops n x e s = Some (v, s1) \<Longrightarrow>
   eval ops (Suc (Suc n)) (ConsV (Symbol d) (ConsV (Symbol name) (ConsV x rest))) e s =
     Some (v, env_insert s1 e name v) \<and>
   env_get (env_insert s1 e name v) e name = Some v"
proof -
  assume d: "env_get s e d = Some (Procedure nm PDefine)" and e: "e < length (envs s)"
    and x: "eval ops n x e s = Some (v, s1)"
  from e eval_grows [OF x] have e1: "e < length (envs s1)" by simp
  have "eval ops (Suc (Suc n)) (ConsV (Symbol d) (ConsV (Symbol name) (ConsV x rest))) e s =
      apply_prim ops (Suc n) PDefine (ConsV (Symbol name) (ConsV x rest)) e s"
    by (rule eval_app_prim [OF d])
  also have "\<dots> = Some (v, env_insert s1 e name v)" by (simp add: x)
  finally show ?thesis using e1 by (simp add: env_get_def env_insert_def)
qed

text \<open>
  C3 (functional). Calling a closure whose parameter list is flat, \<open>(x1 ... xk)\<close>, on
  as many operands evaluates the body in a new environment appended to the store; that
  environment binds each parameter to its argument and then receives every binding of
  the closure's environment as it is at the time of the call. A binding of the closure's
  environment therefore shadows a parameter of the same name, and definitions made in
  the closure's environment after the closure was created are visible in the body.
\<close>

theorem eval_call_flat:
  "eval ops n f e s = Some (Lambda (rust_to_lisp_list (map Symbol names)) body ce, s1) \<Longrightarrow>
   list_all self_evaluating vs \<Longrightarrow> length vs < n \<Longrightarrow> length names = length vs \<Longrightarrow>
   eval ops (Suc n) (ConsV f (rust_to_lisp_list vs)) e s =
   eval ops n body (length (envs s1))
     (s1\<lparr>envs := envs s1 @ [Map.empty(names [\<mapsto>] vs) ++ (envs s1 ! ce)]\<rparr>)"
proof -
  assume f: "eval ops n f e s = Some (Lambda (rust_to_lisp_list (map Symbol names)) body ce, s1)"
    and vs: "list_all self_evaluating vs" "length vs < n" and len: "length names = length vs"
  have "eval ops (Suc n) (ConsV f (rust_to_lisp_list vs)) e s =
      eval ops n body (length (envs s1)) (s1\<lparr>envs := envs s1 @
        [bind_params (rust_to_lisp_list (map Symbol names)) (rust_to_lisp_list vs) Map.empty (envs s1 ! ce)]\<rparr>)"
    by (rule eval_lambda_call [OF f vs])
  then show ?thesis by (simp only: bind_params_flat [OF len])
qed

text \<open>
  C8 (error). \<open>(rust-call name a1 ... ak)\<close> evaluates the operand expressions
  left to right in the current environment (as \<open>eval_list\<close> does), passes the values as
  a vector to the Rust function registered under \<open>name\<close> in the registry as it is after
  that evaluation, and returns its result, printing what it prints; with no such function
  it prints \<open>Rust function 'name' not found\<close> and returns \<open>Nil\<close>.
\<close>

theorem eval_rust_call:
  "env_get s e rc = Some (Procedure nm PRustCall) \<Longrightarrow> eval_list ops n args e s = Some (vs, s1) \<Longrightarrow>
   eval ops (Suc (Suc n)) (ConsV (Symbol rc) (ConsV (Symbol fname) args)) e s =
   (case rust_fns s1 fname of
      Some f \<Rightarrow> Some (fst (f (lisp_to_rust_vector vs)), emit (snd (f (lisp_to_rust_vector vs))) s1)
    | None \<Rightarrow>
        Some (NilV, emit [''Rust function '' @ [CHR 0x27] @ fname @ [CHR 0x27] @ '' not found''] s1))"
proof -
  assume rc: "env_get s e rc = Some (Procedure nm PRustCall)"
    and l: "eval_list ops n args e s = Some (vs, s1)"
  have "eval ops (Suc (Suc n)) (ConsV (Symbol rc) (ConsV (Symbol fname) args)) e s =
      apply_prim ops (Suc n) PRustCall (ConsV (Symbol fname) args) e s"
    by (rule eval_app_prim [OF rc])
  also have "\<dots> = (case rust_fns s1 fname of
      Some f \<Rightarrow> Some (fst (f (lisp_to_rust_vector vs)), emit (snd (f (lisp_to_rust_vector vs))) s1)
    | None \<Rightarrow>
        Some (NilV, emit [''Rust function '' @ [CHR 0x27] @ fname @ [CHR 0x27] @ '' not found''] s1))"
    by (simp add: l rust_call_dispatch_def quoted_def split: prod.split option.split)
  finally show ?thesis .
qed

text \<open>
  C17 (functional). A lambda without parameters applied to one or more operands binds
  nothing and copies nothing: \<open>bind_params(Nil, Cons ...)\<close> is the catch-all case, so the
  body runs in an empty environment, without even the global procedures. (Applied to no
  operands, the \<open>(Nil, Nil)\<close> case copies the closure's environment, theorem
  \<open>eval_call_flat\<close> with no parameters.)
\<close>

theorem eval_call_nullary_args:
  "eval ops n f e s = Some (Lambda NilV body ce, s1) \<Longrightarrow> vs \<noteq> [] \<Longrightarrow>
   list_all self_evaluating vs \<Longrightarrow> length vs < n \<Longrightarrow>
   eval ops (Suc n) (ConsV f (rust_to_lisp_list vs)) e s =
   eval ops n body (length (envs s1)) (s1\<lparr>envs := envs s1 @ [Map.empty]\<rparr>)"
proof -
  assume f: "eval ops n f e s = Some (Lambda NilV body ce, s1)" and ne: "vs \<noteq> []"
    and vs: "list_all self_evaluating vs" "length vs < n"
  from ne obtain v vs' where "vs = v # vs'" by (cases vs) auto
  then have b: "bind_params NilV (rust_to_lisp_list vs) Map.empty (envs s1 ! ce) = Map.empty" by simp
  have "eval ops (Suc n) (ConsV f (rust_to_lisp_list vs)) e s =
      eval ops n body (length (envs s1))
        (s1\<lparr>envs := envs s1 @ [bind_params NilV (rust_to_lisp_list vs) Map.empty (envs s1 ! ce)]\<rparr>)"
    by (rule eval_lambda_call [OF f vs])
  then show ?thesis by (simp only: b)
qed

end
