(* ===== verification/Interop.thy ===== *)
theory Interop
  imports EvalSemantics Reader
begin

text \<open>
  The Rust-side API of \<open>src/src/interop.rs\<close>: calling a Lisp function from Rust
  (\<open>call_lisp_function\<close>), defining one from source text (\<open>register_lisp_function\<close>),
  and the conversions between Rust and Lisp values. \<open>rust_to_lisp_list\<close> and
  \<open>lisp_to_rust_vector\<close> are in theory \<open>Values\<close>, since the evaluator uses them too.
  Like \<open>eval\<close>, \<open>call_lisp_function\<close> takes fuel.
\<close>

text \<open>
  \<open>call_lisp_function\<close> looks the name up in \<open>env\<close> (printing a message and returning
  \<open>Nil\<close> when it is unbound), builds the expression \<open>(f arg1 ... argk)\<close> from the
  function value and the argument values, and evaluates it in \<open>env\<close>.
\<close>

definition call_lisp_function :: "'n numops \<Rightarrow> nat \<Rightarrow> string \<Rightarrow> 'n lisp_value list \<Rightarrow> envref \<Rightarrow>
    'n lisp_state \<Rightarrow> ('n lisp_value \<times> 'n lisp_state) option" where
  "call_lisp_function ops n func_name args e s =
     (case env_get s e func_name of
        None \<Rightarrow> Some (NilV, emit [''Function '' @ quoted func_name @ '' not found in environment''] s)
      | Some f \<Rightarrow> eval ops n (cons f (rust_to_lisp_list args)) e s)"

definition rust_to_lisp_number :: "'n \<Rightarrow> 'n lisp_value" where
  "rust_to_lisp_number n = Number n"

definition rust_to_lisp_symbol :: "string \<Rightarrow> 'n lisp_value" where
  "rust_to_lisp_symbol s = Symbol s"

definition rust_to_lisp_bool :: "bool \<Rightarrow> 'n lisp_value" where
  "rust_to_lisp_bool b = Bool b"

fun lisp_to_rust_number :: "'n lisp_value \<Rightarrow> 'n option" where
  "lisp_to_rust_number (Number n) = Some n"
| "lisp_to_rust_number _ = None"

fun lisp_to_rust_string :: "'n lisp_value \<Rightarrow> string option" where
  "lisp_to_rust_string (Symbol s) = Some s"
| "lisp_to_rust_string _ = None"

text \<open>\<open>Nil\<close> converts to \<open>false\<close> as well.\<close>

fun lisp_to_rust_bool :: "'n lisp_value \<Rightarrow> bool option" where
  "lisp_to_rust_bool (Bool b) = Some b"
| "lisp_to_rust_bool NilV = Some False"
| "lisp_to_rust_bool _ = None"

text \<open>
  \<open>register_lisp_function(name, params, body, env)\<close>: both texts are read with
  \<open>read\<close> (the first error is returned, \<open>?\<close>), and the closure
  \<open>Lambda(params, body, env)\<close> is inserted into \<open>env\<close> under \<open>name\<close>.
\<close>

definition register_lisp_function :: "'n numops \<Rightarrow> string \<Rightarrow> string \<Rightarrow> string \<Rightarrow> envref \<Rightarrow>
    'n lisp_state \<Rightarrow> string + 'n lisp_state" where
  "register_lisp_function ops name params body e s =
     (case read ops params of
        Inl err \<Rightarrow> Inl err
      | Inr p \<Rightarrow>
          (case read ops body of
             Inl err \<Rightarrow> Inl err
           | Inr b \<Rightarrow> Inr (env_insert s e name (Lambda p b e))))"

subsection \<open>Calling Lisp from Rust\<close>

text \<open>Calling a closure by name on self-evaluating arguments.\<close>

lemma call_lisp_function_lambda:
  "env_get s e fname = Some (Lambda ps body ce) \<Longrightarrow>
   list_all self_evaluating args \<Longrightarrow> length args < n \<Longrightarrow>
   call_lisp_function ops (Suc n) fname args e s =
   eval ops n body (length (envs s))
     (s\<lparr>envs := envs s @ [bind_params ps (rust_to_lisp_list args) Map.empty (envs s ! ce)]\<rparr>)"
proof -
  assume f: "env_get s e fname = Some (Lambda ps body ce)"
    and args: "list_all self_evaluating args" "length args < n"
  from args obtain m where n: "n = Suc m" by (cases n) auto
  have l: "eval ops n (Lambda ps body ce) e s = Some (Lambda ps body ce, s)"
    unfolding n by (rule eval_self) simp
  have "call_lisp_function ops (Suc n) fname args e s =
      eval ops (Suc n) (ConsV (Lambda ps body ce) (rust_to_lisp_list args)) e s"
    by (simp add: call_lisp_function_def f cons_def)
  also have "\<dots> = eval ops n body (length (envs s))
     (s\<lparr>envs := envs s @ [bind_params ps (rust_to_lisp_list args) Map.empty (envs s ! ce)]\<rparr>)"
    by (rule eval_lambda_call [OF l args])
  finally show ?thesis .
qed

text \<open>
  C9 (refinement). Calling a Lisp closure with a flat parameter list from Rust on as
  many self-evaluating arguments (numbers, booleans, \<open>Nil\<close>, procedures, closures)
  evaluates its body in a new environment that binds the parameters to the arguments,
  overridden by the bindings of the closure's environment, exactly as the Lisp call
  \<open>(f a1 ... ak)\<close> would.
\<close>

theorem call_lisp_function_flat:
  "env_get s e fname = Some (Lambda (rust_to_lisp_list (map Symbol names)) body ce) \<Longrightarrow>
   list_all self_evaluating args \<Longrightarrow> length args < n \<Longrightarrow> length names = length args \<Longrightarrow>
   call_lisp_function ops (Suc n) fname args e s =
   eval ops n body (length (envs s))
     (s\<lparr>envs := envs s @ [Map.empty(names [\<mapsto>] args) ++ (envs s ! ce)]\<rparr>)"
  by (simp add: call_lisp_function_lambda bind_params_flat)

text \<open>
  C10 (functional). \<open>call_lisp_function\<close> evaluates its arguments again: the argument
  values are placed in an expression that is evaluated, so calling the identity
  \<open>(lambda (y) y)\<close> from Rust on an argument \<open>a\<close> returns the value of \<open>a\<close> as an
  expression in the caller's environment, not \<open>a\<close>. A symbol argument comes back as the
  value it is bound to (or \<open>Nil\<close>), a list argument as the result of applying it.
\<close>

theorem call_lisp_function_reevaluates:
  "env_get s e fname = Some (Lambda (ConsV (Symbol y) NilV) (Symbol y) ce) \<Longrightarrow>
   eval ops n a e s = Some (v, s1) \<Longrightarrow> (envs s1 ! ce) y = None \<Longrightarrow>
   map_option fst (call_lisp_function ops (Suc (Suc n)) fname [a] e s) = Some v"
proof -
  assume f: "env_get s e fname = Some (Lambda (ConsV (Symbol y) NilV) (Symbol y) ce)"
    and a: "eval ops n a e s = Some (v, s1)" and y: "(envs s1 ! ce) y = None"
  from a obtain m where n: "n = Suc m" by (cases n) auto
  have nil: "eval_list ops n NilV e s1 = Some (NilV, s1)" unfolding n by simp
  have l: "eval_list ops (Suc n) (ConsV a NilV) e s = Some (ConsV v NilV, s1)"
    by (simp add: a nil cons_def)
  have "call_lisp_function ops (Suc (Suc n)) fname [a] e s =
      eval ops (Suc (Suc n)) (ConsV (Lambda (ConsV (Symbol y) NilV) (Symbol y) ce) (ConsV a NilV)) e s"
    by (simp add: call_lisp_function_def f cons_def)
  also have "\<dots> = eval ops (Suc n) (Symbol y) (length (envs s1)) (s1\<lparr>envs := envs s1 @
      [bind_params (ConsV (Symbol y) NilV) (ConsV v NilV) Map.empty (envs s1 ! ce)]\<rparr>)"
    by (simp add: l a nil cons_def alloc_env_def)
  finally show ?thesis by (simp add: env_get_def y map_add_def)
qed

text \<open>
  C11 (functional). Defining a function from source text and calling it from Rust:
  \<open>register_lisp_function(name, "(x1 ... xk)", body, env)\<close> binds \<open>name\<close> in
  \<open>env\<close> to a closure over \<open>env\<close> itself with the parameters and body that were read,
  and \<open>call_lisp_function(name, args, env)\<close> then evaluates that body with the
  parameters bound to the arguments, overridden by the bindings of \<open>env\<close> as it is
  after the registration (which include \<open>name\<close>, so the function can call itself).
\<close>

theorem register_then_call:
  "read ops ps = Inr (rust_to_lisp_list (map Symbol names)) \<Longrightarrow> read ops bs = Inr body \<Longrightarrow>
   e < length (envs s) \<Longrightarrow> register_lisp_function ops name ps bs e s = Inr s' \<Longrightarrow>
   list_all self_evaluating args \<Longrightarrow> length args < n \<Longrightarrow> length names = length args \<Longrightarrow>
   call_lisp_function ops (Suc n) name args e s' =
   eval ops n body (length (envs s'))
     (s'\<lparr>envs := envs s' @ [Map.empty(names [\<mapsto>] args) ++ (envs s' ! e)]\<rparr>)"
proof -
  assume p: "read ops ps = Inr (rust_to_lisp_list (map Symbol names))" and b: "read ops bs = Inr body"
    and e: "e < length (envs s)" and r: "register_lisp_function ops name ps bs e s = Inr s'"
    and args: "list_all self_evaluating args" "length args < n" and len: "length names = length args"
  from r p b have s': "s' = env_insert s e name (Lambda (rust_to_lisp_list (map Symbol names)) body e)"
    by (simp add: register_lisp_function_def)
  with e have "env_get s' e name = Some (Lambda (rust_to_lisp_list (map Symbol names)) body e)"
    by (simp add: env_get_def env_insert_def)
  from call_lisp_function_lambda [OF this args] show ?thesis
    by (simp only: bind_params_flat [OF len])
qed

end
