(* ===== verification/Repl.thy ===== *)
theory Repl
  imports Interop Printer
begin

text \<open>
  The program of \<open>src/src/main.rs\<close>: \<open>main\<close> builds the global environment
  (\<open>setup_environment\<close>, then \<open>setup_rust_functions\<close>) and runs \<open>repl\<close>, which reads a
  line, stops on \<open>exit\<close>, and otherwise reads one expression from the line, evaluates it
  in the global environment and prints the result, or prints \<open>Error: \<close> and the
  reader's message.

  Standard input is the list of the lines still to come. \<open>read_line\<close> at the end of
  the input returns \<open>Ok(0)\<close> and leaves the buffer empty, so the model reads the empty
  line there and the input stays empty. One iteration of the loop is a step of the
  relation \<open>repl_step\<close> on the pair of remaining input and interpreter state; the
  evaluation inside is the evaluator with some fuel (any terminating fuel, since
  all give the same result). The prompt and the banner (\<open>print!\<close> without a line
  break, with characters outside the model's alphabet) are not part of the printed
  lines; an I/O error of \<open>read_line\<close>, which also ends the loop, is not modelled.
\<close>

definition main_setup :: "envref \<times> 'n lisp_state" where
  "main_setup = (let (env, s) = setup_environment init_state in (env, setup_rust_functions env s))"

definition trim :: "string \<Rightarrow> string" where
  "trim s = rev (dropWhile is_whitespace (rev (dropWhile is_whitespace s)))"

fun read_line :: "string list \<Rightarrow> string \<times> string list" where
  "read_line [] = ([], [])"
| "read_line (l # ls) = (l, ls)"

type_synonym 'n repl_config = "string list \<times> 'n lisp_state"

definition repl_exits :: "'n repl_config \<Rightarrow> bool" where
  "repl_exits c \<longleftrightarrow> trim (fst (read_line (fst c))) = ''exit''"

inductive repl_step :: "'n numops \<Rightarrow> envref \<Rightarrow> 'n repl_config \<Rightarrow> 'n repl_config \<Rightarrow> bool"
  for ops env where
  repl_eval:
    "read_line inp = (line, inp') \<Longrightarrow> trim line \<noteq> ''exit'' \<Longrightarrow> read ops line = Inr expr \<Longrightarrow>
     eval ops n expr env s = Some (v, s') \<Longrightarrow>
     repl_step ops env (inp, s) (inp', emit [print_value ops v] s')"
| repl_error:
    "read_line inp = (line, inp') \<Longrightarrow> trim line \<noteq> ''exit'' \<Longrightarrow> read ops line = Inl err \<Longrightarrow>
     repl_step ops env (inp, s) (inp', emit [''Error: '' @ err] s)"

text \<open>
  The loop as an executable function on a finite list of input lines: one evaluation
  fuel for every line, \<open>None\<close> when an evaluation runs out of it. It stops at an
  \<open>exit\<close> line or when the given lines are used up (where the program itself would go
  on reading the end of input, \<open>repl_eof_runs_forever\<close>).
\<close>

fun repl_run :: "'n numops \<Rightarrow> nat \<Rightarrow> envref \<Rightarrow> string list \<Rightarrow> 'n lisp_state \<Rightarrow> 'n lisp_state option" where
  "repl_run ops fuel env [] s = Some s"
| "repl_run ops fuel env (l # ls) s =
     (if trim l = ''exit'' then Some s
      else (case read ops l of
              Inl err \<Rightarrow> repl_run ops fuel env ls (emit [''Error: '' @ err] s)
            | Inr expr \<Rightarrow>
                (case eval ops fuel expr env s of
                   None \<Rightarrow> None
                 | Some (v, s') \<Rightarrow> repl_run ops fuel env ls (emit [print_value ops v] s'))))"

inductive_cases repl_stepE: "repl_step ops env c c'"

lemma main_setup_simps:
  "fst main_setup = 0"
  "envs (snd main_setup) = [global_bindings(''rust-call'' \<mapsto> Procedure ''rust-call'' PRustCall)]"
  "rust_fns (snd main_setup) = Map.empty"
  "stdout (snd main_setup) = []"
  by (simp_all add: main_setup_def setup_environment_def setup_rust_functions_def alloc_env_def
      env_insert_def init_state_def)

lemma emit_emit [simp]: "emit b (emit a s) = emit (a @ b) s"
  by (simp add: emit_def)

lemma emit_Nil [simp]: "emit [] s = s"
  by (simp add: emit_def)

lemma read_empty: "read ops [] = Inl ''Unexpected end of input''"
  by (simp add: read_def read_expr_end skip_ws_def)

lemma trim_empty [simp]: "trim [] = []"
  by (simp add: trim_def)

lemma repl_step_eof:
  "repl_step ops env ([], s) c' \<longleftrightarrow> c' = ([], emit [''Error: Unexpected end of input''] s)"
proof
  assume "repl_step ops env ([], s) c'"
  then show "c' = ([], emit [''Error: Unexpected end of input''] s)"
    by (cases rule: repl_stepE) (auto simp: read_empty)
next
  assume "c' = ([], emit [''Error: Unexpected end of input''] s)"
  then show "repl_step ops env ([], s) c'"
    using repl_error [of "[]" "[]" "[]" ops] by (simp add: read_empty)
qed

subsection \<open>Properties of the loop\<close>

text \<open>
  C12 (liveness). At the end of the input the loop never stops: \<open>read_line\<close> keeps
  returning the empty line, which is not \<open>exit\<close> and reads as an error. Every
  configuration reachable from an exhausted input still has an empty input, is not an
  exit, has a next step, and differs from the start only by having printed
  \<open>Error: Unexpected end of input\<close> some number of times.
\<close>

theorem repl_eof_runs_forever:
  "(repl_step ops env)\<^sup>*\<^sup>* ([], s) c \<Longrightarrow>
   (\<exists>k. c = ([], emit (replicate k ''Error: Unexpected end of input'') s)) \<and>
   \<not> repl_exits c \<and> (\<exists>c'. repl_step ops env c c')"
proof (induction rule: rtranclp_induct)
  case base
  have "\<exists>k. ([], s) = ([], emit (replicate k ''Error: Unexpected end of input'') s)"
    by (rule exI [where x = 0]) simp
  then show ?case by (auto simp: repl_exits_def repl_step_eof)
next
  case (step c c')
  from step.IH obtain k where c: "c = ([], emit (replicate k ''Error: Unexpected end of input'') s)"
    by blast
  with step.hyps(2) have c': "c' = ([], emit (replicate (Suc k) ''Error: Unexpected end of input'') s)"
    by (simp add: repl_step_eof replicate_append_same [symmetric])
  then have "\<exists>k. c' = ([], emit (replicate k ''Error: Unexpected end of input'') s)" by blast
  moreover from c' have "\<not> repl_exits c' \<and> (\<exists>c''. repl_step ops env c' c'')"
    by (simp add: repl_exits_def repl_step_eof)
  ultimately show ?case by blast
qed

text \<open>
  The executable loop \<open>repl_run\<close> agrees with the loop relation: a result it returns is
  reached by iterations of \<open>repl_step\<close>, and there the input is used up or the next
  line is \<open>exit\<close>. The sessions of theory \<open>Sessions\<close> are computed with it.
\<close>

lemma repl_run_refines:
  "repl_run ops fuel env inp s = Some s' \<Longrightarrow>
   \<exists>inp'. (repl_step ops env)\<^sup>*\<^sup>* (inp, s) (inp', s') \<and> (inp' = [] \<or> repl_exits (inp', s'))"
proof (induction ops fuel env inp s rule: repl_run.induct)
  case (1 ops fuel env s)
  then show ?case by auto
next
  case (2 ops fuel env l ls s)
  show ?case
  proof (cases "trim l = ''exit''")
    case True
    with "2.prems" show ?thesis by (auto simp: repl_exits_def)
  next
    case nx: False
    show ?thesis
    proof (cases "read ops l")
      case (Inl err)
      with nx "2.prems" have "repl_run ops fuel env ls (emit [''Error: '' @ err] s) = Some s'" by simp
      with "2.IH"(1) [OF nx Inl] obtain inp' where
        r: "(repl_step ops env)\<^sup>*\<^sup>* (ls, emit [''Error: '' @ err] s) (inp', s')"
        and e: "inp' = [] \<or> repl_exits (inp', s')" by blast
      have "repl_step ops env (l # ls, s) (ls, emit [''Error: '' @ err] s)"
        by (rule repl_error [OF _ nx Inl]) simp
      with r e show ?thesis by (blast intro: converse_rtranclp_into_rtranclp)
    next
      case (Inr expr)
      with nx "2.prems" obtain v s1 where ev: "eval ops fuel expr env s = Some (v, s1)"
        and run: "repl_run ops fuel env ls (emit [print_value ops v] s1) = Some s'"
        by (auto split: option.splits)
      with "2.IH"(2) [OF nx Inr] obtain inp' where
        r: "(repl_step ops env)\<^sup>*\<^sup>* (ls, emit [print_value ops v] s1) (inp', s')"
        and e: "inp' = [] \<or> repl_exits (inp', s')" by blast
      have "repl_step ops env (l # ls, s) (ls, emit [print_value ops v] s1)"
        by (rule repl_eval [OF _ nx Inr ev]) simp
      with r e show ?thesis by (blast intro: converse_rtranclp_into_rtranclp)
    qed
  qed
qed

text \<open>
  C13 (functional). After start-up, the names \<open>+ - * / = < >\<close> of the global environment
  denote the matching procedures: a call of any of them on numbers, in the global
  environment of \<open>main_setup\<close>, computes the reference fold \<open>arith_ref\<close> of that
  procedure and changes nothing.
\<close>

theorem main_setup_operators:
  "(f, p) \<in> set [(''+'', PAdd), (''-'', PSub), (''*'', PMul), (''/'', PDiv), (''='', PNumEq),
                (''<'', PLess), (''>'', PGreater)] \<Longrightarrow> length ns < n \<Longrightarrow>
   eval ops (Suc (Suc n)) (ConsV (Symbol f) (rust_to_lisp_list (map Number ns))) (fst main_setup)
     (snd main_setup) = Some (arith_ref ops p ns, snd main_setup)"
proof -
  assume fp: "(f, p) \<in> set [(''+'', PAdd), (''-'', PSub), (''*'', PMul), (''/'', PDiv), (''='', PNumEq),
                (''<'', PLess), (''>'', PGreater)]" and n: "length ns < n"
  from fp have b: "env_get (snd main_setup :: 'n lisp_state) 0 f = Some (Procedure f p)"
    by (auto simp: env_get_def main_setup_simps global_bindings_def)
  from fp have "numeric_prim ops p \<noteq> None" by auto
  from eval_numeric_prim_call [OF b this n] show ?thesis by (simp add: main_setup_simps)
qed

end
