(* ===== verification/RatNum.thy ===== *)
theory RatNum
  imports Complex_Main Reader
begin

text \<open>
  A concrete choice of the number operations, used to run the model on concrete
  programs: exact rational arithmetic. It agrees with IEEE-754 binary64 on every
  computation whose operands and results are exactly representable (small integers,
  halves, quarters, ...), which is what the examples use. It has no infinities, NaN or
  signed zero (\<open>inf\<close> and \<open>nan\<close> literals read as 0) and does not round; printing
  follows Rust's \<open>Display\<close> for such values (\<open>6\<close>, \<open>-2.5\<close>, no exponent).
  It is not a model of the repository's code but of the \<open>f64\<close> operations it calls.
\<close>

fun nat_digits :: "nat \<Rightarrow> string" where
  "nat_digits n =
     (if n < 10 then [char_of (48 + n)] else nat_digits (n div 10) @ [char_of (48 + n mod 10)])"

definition digits_val :: "string \<Rightarrow> nat" where
  "digits_val ds = foldl (\<lambda>acc c. 10 * acc + (of_char c - 48)) 0 ds"

definition show_int :: "int \<Rightarrow> string" where
  "show_int i = (if i < 0 then ''-'' @ nat_digits (nat (- i)) else nat_digits (nat i))"

definition show_rat :: "rat \<Rightarrow> string" where
  "show_rat r =
     (let (p, q) = quotient_of r in
      if q = 1 then show_int p
      else
        let k = (case find (\<lambda>k. (p * 10 ^ k) mod q = 0) [1..<21] of Some k \<Rightarrow> k | None \<Rightarrow> 20);
            ds = nat_digits (nat ((\<bar>p\<bar> * 10 ^ k) div q));
            ds' = replicate (Suc k - length ds) CHR ''0'' @ ds
        in (if p < 0 then ''-'' else []) @ take (length ds' - k) ds' @ ''.'' @ drop (length ds' - k) ds')"

definition rat_of_literal :: "string \<Rightarrow> rat" where
  "rat_of_literal s =
     (let u = strip_sign s;
          ip = takeWhile is_ascii_digit u; r1 = dropWhile is_ascii_digit u;
          (fp, r2) = (case r1 of
              c # r \<Rightarrow> if c = CHR ''.'' then (takeWhile is_ascii_digit r, dropWhile is_ascii_digit r)
                       else ([], r1)
            | [] \<Rightarrow> ([], []));
          ex = (case r2 of
              _ # e \<Rightarrow> (if take 1 e = ''-'' then - int (digits_val (strip_sign e))
                        else int (digits_val (strip_sign e)))
            | [] \<Rightarrow> 0);
          mag = of_nat (digits_val (ip @ fp)) * power_int 10 (ex - int (length fp))
      in if inf_nan_ok u then 0 else if take 1 s = ''-'' then - mag else mag)"

definition rat_ops :: "rat numops" where
  "rat_ops = \<lparr>num_of_literal = rat_of_literal, num_show = show_rat,
     num_add = (+), num_sub = (-), num_mul = (*), num_div = (/),
     num_eq = (=), num_lt = (<), num_zero = 0, num_one = 1, num_of_nat = of_nat\<rparr>"

end
