(* ===== verification/Examples.thy ===== *)
theory Examples
  imports Repl RatNum "HOL-Library.Monad_Syntax"
begin

text \<open>
  The three example programs of \<open>src/examples\<close>, which drive the library from Rust:
  \<open>rust_from_lisp.rs\<close> registers its own Rust functions and runs Lisp code that calls
  them, \<open>interop_example.rs\<close> defines Lisp functions from Rust and calls them, and
  \<open>full_interop_demo.rs\<close> does both before starting the same REPL as \<open>main.rs\<close>.
  Each \<open>println!\<close> is one element of the printed lines (an embedded \<open>\n\<close> is the
  character 10 inside the element). A program is a function of the fuel given to every
  evaluation in it; \<open>None\<close> means some evaluation ran out of fuel.
\<close>

subsection \<open>Blocks the examples repeat\<close>

text \<open>
  \<open>println!("Lisp code: {}", src); match read(src) { Ok(expr) => { let result =
  eval(expr, env); println!("Result: {}...", print_value(&result)) } Err(err) =>
  println!("Error: {}...", err) }\<close>, where the format string ends in \<open>sfx\<close>
  (a line break or nothing).
\<close>

definition example_block :: "'n numops \<Rightarrow> nat \<Rightarrow> string \<Rightarrow> string \<Rightarrow> envref \<Rightarrow>
    'n lisp_state \<Rightarrow> 'n lisp_state option" where
  "example_block ops fuel sfx src e s =
     (let s1 = emit [''Lisp code: '' @ src] s in
      case read ops src of
        Inl err \<Rightarrow> Some (emit [''Error: '' @ err @ sfx] s1)
      | Inr expr \<Rightarrow>
          map_option (\<lambda>(v, s2). emit [''Result: '' @ print_value ops v @ sfx] s2)
            (eval ops fuel expr e s1))"

text \<open>
  \<open>match register_lisp_function(name, params, body, env) { Ok(_) => println!(ok),
  Err(e) => println!("Error registering function: {}", e) }\<close>; \<open>ok_msgs\<close> is what the
  success branch prints (nothing for \<open>sqrt\<close> in \<open>full_interop_demo.rs\<close>).
\<close>

definition register_block :: "'n numops \<Rightarrow> string list \<Rightarrow> string \<Rightarrow> string \<Rightarrow> string \<Rightarrow>
    envref \<Rightarrow> 'n lisp_state \<Rightarrow> 'n lisp_state" where
  "register_block ops ok_msgs name params body e s =
     (case register_lisp_function ops name params body e s of
        Inr s' \<Rightarrow> emit ok_msgs s'
      | Inl err \<Rightarrow> emit [''Error registering function: '' @ err] s)"

text \<open>
  \<open>let result = call_lisp_function(name, args, env)\<close>, then the number it converts to
  (\<open>lisp_to_rust_number\<close>) and its printed form.
\<close>

definition call_block :: "'n numops \<Rightarrow> nat \<Rightarrow> string \<Rightarrow> 'n list \<Rightarrow> envref \<Rightarrow> 'n lisp_state \<Rightarrow>
    'n lisp_state option" where
  "call_block ops fuel name args e s =
     map_option
       (\<lambda>(result, s1).
          emit [(case lisp_to_rust_number result of
                   Some n \<Rightarrow> ''Result: '' @ num_show ops n @ '' (Rust f64 value)''
                 | None \<Rightarrow> ''Result could not be converted to a number''),
                ''Lisp representation: '' @ print_value ops result] s1)
       (call_lisp_function ops fuel name (map rust_to_lisp_number args) e s)"

subsection \<open>\<open>rust_from_lisp.rs\<close>\<close>

text \<open>The squaring function; \<open>name\<close> is the name its messages use.\<close>

definition rust_square :: "'n numops \<Rightarrow> string \<Rightarrow> 'n rust_function" where
  "rust_square ops name args =
     (if length args \<noteq> 1 then (NilV, [name @ '' requires exactly one argument''])
      else (case hd args of
              Number n \<Rightarrow> (Number (num_mul ops n n), [])
            | _ \<Rightarrow> (NilV, [name @ '' requires a numeric argument''])))"

text \<open>\<open>concat\<close>: the symbols' names joined, or \<open>Nil\<close> at the first argument that is not a symbol.\<close>

fun concat_symbols :: "'n lisp_value list \<Rightarrow> string option" where
  "concat_symbols [] = Some []"
| "concat_symbols (Symbol s # vs) = map_option (\<lambda>r. s @ r) (concat_symbols vs)"
| "concat_symbols (_ # vs) = None"

definition rust_concat :: "'n rust_function" where
  "rust_concat args =
     (case concat_symbols args of
        Some r \<Rightarrow> (Symbol r, [])
      | None \<Rightarrow> (NilV, [''concat requires symbol arguments'']))"

text \<open>
  \<open>is-even\<close>: \<open>(n as i64) % 2 == 0\<close>. The conversion \<open>f64 as i64\<close> is a parameter
  (\<open>to_i64\<close>); \<open>rat_as_i64\<close> below is Rust's saturating conversion on the rational
  model: truncation towards zero, clamped to the range of \<open>i64\<close>.
\<close>

definition rust_is_even :: "('n \<Rightarrow> int) \<Rightarrow> 'n rust_function" where
  "rust_is_even to_i64 args =
     (if length args \<noteq> 1 then (NilV, [''is-even requires exactly one argument''])
      else (case hd args of
              Number n \<Rightarrow> (Bool (to_i64 n mod 2 = 0), [])
            | _ \<Rightarrow> (NilV, [''is-even requires a numeric argument''])))"

definition rat_as_i64 :: "rat \<Rightarrow> int" where
  "rat_as_i64 r =
     max (- (2 ^ 63)) (min (2 ^ 63 - 1) (if r < 0 then - \<lfloor>- r\<rfloor> else \<lfloor>r\<rfloor>))"

definition register_custom_functions :: "'n numops \<Rightarrow> ('n \<Rightarrow> int) \<Rightarrow> 'n lisp_state \<Rightarrow> 'n lisp_state" where
  "register_custom_functions ops to_i64 s =
     register_rust_function ''is-even'' (rust_is_even to_i64)
       (register_rust_function ''concat'' rust_concat
         (register_rust_function ''square'' (rust_square ops ''square'') s))"

definition run_lisp_examples :: "'n numops \<Rightarrow> nat \<Rightarrow> envref \<Rightarrow> 'n lisp_state \<Rightarrow> 'n lisp_state option" where
  "run_lisp_examples ops fuel e s =
     do {
       s \<leftarrow> example_block ops fuel [CHR 10] ''(rust-call square 5)'' e
              (emit [''=== Calling Rust Functions from Lisp ==='' @ [CHR 10]] s);
       s \<leftarrow> example_block ops fuel [CHR 10] ''(rust-call concat hello world)'' e s;
       s \<leftarrow> example_block ops fuel [CHR 10] ''(rust-call is-even 42)'' e s;
       s \<leftarrow> example_block ops fuel []
              ''(define sum-of-squares (lambda (x y) (+ (rust-call square x) (rust-call square y))))'' e s;
       s \<leftarrow> example_block ops fuel [CHR 10] ''(sum-of-squares 3 4)'' e s;
       Some (emit [''=== End of Examples ===''] s)
     }"

definition rust_from_lisp_main :: "'n numops \<Rightarrow> nat \<Rightarrow> ('n \<Rightarrow> int) \<Rightarrow> 'n lisp_state option" where
  "rust_from_lisp_main ops fuel to_i64 =
     (let (e, s) = setup_environment init_state;
          s = register_custom_functions ops to_i64 (setup_rust_functions e s)
      in run_lisp_examples ops fuel e s)"

subsection \<open>\<open>interop_example.rs\<close>\<close>

definition demo_interop :: "'n numops \<Rightarrow> nat \<Rightarrow> envref \<Rightarrow> 'n lisp_state \<Rightarrow> 'n lisp_state option" where
  "demo_interop ops fuel e s =
     do {
       let s = emit [''=== Rust-Lisp Interoperability Demo ==='',
                     ''Defining a Lisp function 'square' from Rust...''] s;
       let s = register_block ops [''Function 'square' registered successfully!'']
                 ''square'' ''(x)'' ''(* x x)'' e s;
       let s = emit [[CHR 10] @ ''Calling Lisp 'square' function from Rust with argument 5...''] s;
       s \<leftarrow> call_block ops fuel ''square'' [num_of_nat ops 5] e s;
       let s = emit [[CHR 10] @ ''Defining a more complex Lisp function 'sum-of-squares'...''] s;
       let s = register_block ops [''Function 'sum-of-squares' registered successfully!'']
                 ''sum-of-squares'' ''(x y)'' ''(+ (* x x) (* y y))'' e s;
       let s = emit [[CHR 10] @ ''Calling 'sum-of-squares' with arguments 3 and 4...''] s;
       s \<leftarrow> call_block ops fuel ''sum-of-squares'' [num_of_nat ops 3, num_of_nat ops 4] e s;
       Some (emit [[CHR 10] @ ''=== End of Demo ==='' @ [CHR 10]] s)
     }"

text \<open>\<open>main\<close>: no \<open>setup_rust_functions\<close> here.\<close>

definition interop_example_main :: "'n numops \<Rightarrow> nat \<Rightarrow> 'n lisp_state option" where
  "interop_example_main ops fuel =
     (let (e, s) = setup_environment init_state
      in map_option (emit [''Example completed. Run the main program to use the REPL.''])
           (demo_interop ops fuel e s))"

subsection \<open>\<open>full_interop_demo.rs\<close>\<close>

definition register_rust_functions :: "'n numops \<Rightarrow> 'n lisp_state \<Rightarrow> 'n lisp_state" where
  "register_rust_functions ops s =
     register_rust_function ''rust-square'' (rust_square ops ''rust-square'')
       (register_rust_function ''rust-uppercase'' rust_uppercase
         (register_rust_function ''rust-length'' (rust_length ops)
           (register_rust_function ''rust-multiply'' (rust_multiply ops)
             (register_rust_function ''rust-add'' (rust_add ops) s))))"

text \<open>
  \<open>demo_lisp_to_rust\<close>. \<open>pythagoras\<close> is defined before \<open>sqrt\<close> exists; the call
  \<open>(pythagoras 3 4)\<close> finds \<open>sqrt\<close> because the call environment receives the
  bindings of the closure's environment as they are at the time of the call.
\<close>

definition demo_lisp_to_rust :: "'n numops \<Rightarrow> nat \<Rightarrow> envref \<Rightarrow> 'n lisp_state \<Rightarrow> 'n lisp_state option" where
  "demo_lisp_to_rust ops fuel e s =
     do {
       let s = emit [''=== Demo: Calling Rust from Lisp ==='',
         ''You can call Rust functions from Lisp using the 'rust-call' special form.'' @ [CHR 10]] s;
       s \<leftarrow> example_block ops fuel [CHR 10] ''(rust-call rust-add 1 2 3)'' e s;
       s \<leftarrow> example_block ops fuel [CHR 10] ''(+ (rust-call rust-square 3) (rust-call rust-square 4))'' e s;
       s \<leftarrow> example_block ops fuel []
         ''(define pythagoras (lambda (a b) (sqrt (+ (rust-call rust-square a) (rust-call rust-square b)))))'' e s;
       let s = register_block ops [] ''sqrt'' ''(x)'' ''(* x 0.5)'' e s;
       s \<leftarrow> example_block ops fuel [CHR 10] ''(pythagoras 3 4)'' e s;
       Some (emit [''=== End of Lisp -> Rust Demo ==='' @ [CHR 10]] s)
     }"

definition demo_rust_to_lisp :: "'n numops \<Rightarrow> nat \<Rightarrow> envref \<Rightarrow> 'n lisp_state \<Rightarrow> 'n lisp_state option" where
  "demo_rust_to_lisp ops fuel e s =
     do {
       let s = emit [''=== Demo: Calling Lisp from Rust ==='',
         ''You can define and call Lisp functions from Rust code.'' @ [CHR 10],
         ''Defining a Lisp function 'square' from Rust...''] s;
       let s = register_block ops [''Function 'square' registered successfully!'']
                 ''square'' ''(x)'' ''(* x x)'' e s;
       let s = emit [[CHR 10] @ ''Calling Lisp 'square' function from Rust with argument 5...''] s;
       s \<leftarrow> call_block ops fuel ''square'' [num_of_nat ops 5] e s;
       let s = emit [[CHR 10] @ ''Defining a more complex Lisp function 'sum-of-squares'...''] s;
       let s = register_block ops [''Function 'sum-of-squares' registered successfully!'']
                 ''sum-of-squares'' ''(x y)'' ''(+ (* x x) (* y y))'' e s;
       let s = emit [[CHR 10] @ ''Calling 'sum-of-squares' with arguments 3 and 4...''] s;
       s \<leftarrow> call_block ops fuel ''sum-of-squares'' [num_of_nat ops 3, num_of_nat ops 4] e s;
       Some (emit [[CHR 10] @ ''=== End of Rust -> Lisp Demo ==='' @ [CHR 10]] s)
     }"

text \<open>
  \<open>main\<close> up to the REPL: the global environment, \<open>rust-call\<close>, the registered
  functions and the two demonstrations. The REPL it then starts is the loop of
  \<open>main.rs\<close> (the same code), \<open>repl_step\<close>, from the configuration
  \<open>full_demo_config\<close>.
\<close>

definition full_demo_main :: "'n numops \<Rightarrow> nat \<Rightarrow> (envref \<times> 'n lisp_state) option" where
  "full_demo_main ops fuel =
     (let (e, s) = setup_environment init_state;
          s = register_rust_functions ops (setup_rust_functions e s)
      in do {
           s \<leftarrow> demo_lisp_to_rust ops fuel e s;
           s \<leftarrow> demo_rust_to_lisp ops fuel e s;
           Some (e, emit [[CHR 10] @ ''Starting interactive REPL. Try using the functions demonstrated above.''] s)
         })"

subsection \<open>What the examples print\<close>

text \<open>
  \<open>rust_from_lisp.rs\<close> prints the results its comments promise
  except for \<open>concat\<close>: \<open>rust-call\<close> evaluates its operands, so the unbound symbols
  \<open>hello\<close> and \<open>world\<close> arrive as \<open>Nil\<close> and \<open>concat\<close> reports that it needs
  symbols. Fuel 100 is more than any evaluation here uses, so by fuel monotonicity every
  larger fuel gives the same output.
\<close>

lemma rust_from_lisp_output:
  "map_option stdout (rust_from_lisp_main rat_ops 100 rat_as_i64) = Some
     [''=== Calling Rust Functions from Lisp ==='' @ [CHR 10],
      ''Lisp code: (rust-call square 5)'', ''Result: 25'' @ [CHR 10],
      ''Lisp code: (rust-call concat hello world)'',
      ''concat requires symbol arguments'', ''Result: ()'' @ [CHR 10],
      ''Lisp code: (rust-call is-even 42)'', ''Result: #t'' @ [CHR 10],
      ''Lisp code: (define sum-of-squares (lambda (x y) (+ (rust-call square x) (rust-call square y))))'',
      ''Result: <lambda>'', ''Lisp code: (sum-of-squares 3 4)'', ''Result: 25'' @ [CHR 10],
      ''=== End of Examples ==='']"
  by code_simp

text \<open>
  \<open>interop_example.rs\<close> defines \<open>square\<close> and
  \<open>sum-of-squares\<close> from Rust, calls them from Rust and gets \<open>25\<close> twice.
\<close>

lemma interop_example_output:
  "map_option stdout (interop_example_main rat_ops 100) = Some
     [''=== Rust-Lisp Interoperability Demo ==='',
      ''Defining a Lisp function 'square' from Rust...'',
      ''Function 'square' registered successfully!'',
      [CHR 10] @ ''Calling Lisp 'square' function from Rust with argument 5...'',
      ''Result: 25 (Rust f64 value)'', ''Lisp representation: 25'',
      [CHR 10] @ ''Defining a more complex Lisp function 'sum-of-squares'...'',
      ''Function 'sum-of-squares' registered successfully!'',
      [CHR 10] @ ''Calling 'sum-of-squares' with arguments 3 and 4...'',
      ''Result: 25 (Rust f64 value)'', ''Lisp representation: 25'',
      [CHR 10] @ ''=== End of Demo ==='' @ [CHR 10],
      ''Example completed. Run the main program to use the REPL.'']"
  by code_simp

text \<open>
  \<open>full_interop_demo.rs\<close> prints \<open>6\<close>, \<open>25\<close> and, for
  \<open>(pythagoras 3 4)\<close>, \<open>12.5\<close>: \<open>sqrt\<close> is registered after \<open>pythagoras\<close>
  is defined and is still found, since a call copies the closure's environment as it is
  when the call happens. Then the Rust-to-Lisp calls give \<open>25\<close> twice.
\<close>

lemma full_demo_output:
  "map_option (stdout \<circ> snd) (full_demo_main rat_ops 100) = Some
     [''=== Demo: Calling Rust from Lisp ==='',
      ''You can call Rust functions from Lisp using the 'rust-call' special form.'' @ [CHR 10],
      ''Lisp code: (rust-call rust-add 1 2 3)'', ''Result: 6'' @ [CHR 10],
      ''Lisp code: (+ (rust-call rust-square 3) (rust-call rust-square 4))'', ''Result: 25'' @ [CHR 10],
      ''Lisp code: (define pythagoras (lambda (a b) (sqrt (+ (rust-call rust-square a) (rust-call rust-square b)))))'',
      ''Result: <lambda>'', ''Lisp code: (pythagoras 3 4)'', ''Result: 12.5'' @ [CHR 10],
      ''=== End of Lisp -> Rust Demo ==='' @ [CHR 10],
      ''=== Demo: Calling Lisp from Rust ==='',
      ''You can define and call Lisp functions from Rust code.'' @ [CHR 10],
      ''Defining a Lisp function 'square' from Rust...'',
      ''Function 'square' registered successfully!'',
      [CHR 10] @ ''Calling Lisp 'square' function from Rust with argument 5...'',
      ''Result: 25 (Rust f64 value)'', ''Lisp representation: 25'',
      [CHR 10] @ ''Defining a more complex Lisp function 'sum-of-squares'...'',
      ''Function 'sum-of-squares' registered successfully!'',
      [CHR 10] @ ''Calling 'sum-of-squares' with arguments 3 and 4...'',
      ''Result: 25 (Rust f64 value)'', ''Lisp representation: 25'',
      [CHR 10] @ ''=== End of Rust -> Lisp Demo ==='' @ [CHR 10],
      [CHR 10] @ ''Starting interactive REPL. Try using the functions demonstrated above.'']"
  by code_simp

text \<open>
  C14 (bounds). \<open>is-even\<close> converts with \<open>as i64\<close>, which saturates: every number
  from \<open>2^63\<close> up becomes \<open>i64::MAX = 2^63 - 1\<close>, which is odd, so \<open>is-even\<close> answers
  \<open>#f\<close> for all of them, although every such \<open>f64\<close> is an even integer.
\<close>

theorem rust_is_even_saturates:
  "2 ^ 63 \<le> r \<Longrightarrow> rust_is_even rat_as_i64 [Number r] = (Bool False, [])"
proof -
  assume r: "2 ^ 63 \<le> r"
  then have "(2 ^ 63 :: int) \<le> \<lfloor>r\<rfloor>" by (simp add: le_floor_iff)
  with r have "rat_as_i64 r = 2 ^ 63 - 1" by (simp add: rat_as_i64_def)
  then show ?thesis by (simp add: rust_is_even_def)
qed

end
