(* ===== verification/Sessions.thy ===== *)
theory Sessions
  imports Repl RatNum
begin

text \<open>
  REPL sessions of the interpreter as \<open>main.rs\<close> starts it, run with the executable
  loop \<open>repl_run\<close> on the rational instance: the behaviours the specification lists as
  testable, and two that decide how closures see their environment. Fuel 50 per line is
  more than any of these lines nests, so every larger fuel prints the same.
\<close>

abbreviation session :: "string list \<Rightarrow> rat lisp_state option" where
  "session lines \<equiv> repl_run rat_ops 50 0 lines (snd main_setup)"

text \<open>
  The examples of the specification: \<open>(+ 1 2 3)\<close> is 6,
  \<open>(* 2 3 4)\<close> 24, \<open>(- 10 1 2)\<close> 7, \<open>(/ 10 0)\<close> 10 (the zero divisor is skipped),
  \<open>(f 41)\<close> 42 after \<open>(define f (lambda (x) (+ x 1)))\<close>, \<open>'(a b c)\<close> prints as
  \<open>(a b c)\<close>, an unbound symbol is \<open>()\<close>, an unregistered Rust function prints a
  diagnostic and gives \<open>()\<close>, and \<open>(1 2\<close> and the empty line are reader errors, the
  first with the message \<open>Expected ')' but got end of input\<close>.
\<close>

lemma spec_examples_session:
  "map_option stdout (session
     [''(+ 1 2 3)'', ''(* 2 3 4)'', ''(- 10 1 2)'', ''(/ 10 0)'',
      ''(define f (lambda (x) (+ x 1)))'', ''(f 41)'', [CHR 0x27] @ ''(a b c)'', ''unbound'',
      ''(rust-call square 5)'', ''(1 2'', ''''])
   = Some [''6'', ''24'', ''7'', ''10'', ''<lambda>'', ''42'', ''(a b c)'', ''()'',
           ''Rust function '' @ [CHR 0x27] @ ''square'' @ [CHR 0x27] @ '' not found'', ''()'',
           ''Error: Expected '' @ [CHR 0x27, CHR 0x29, CHR 0x27] @ '' but got end of input'',
           ''Error: Unexpected end of input'']"
  by code_simp

text \<open>
  Snapshot at call time: a closure created while \<open>x\<close> is 1 sees
  \<open>x = 2\<close> once the defining environment has been changed before the call.
\<close>

lemma snapshot_at_call_session:
  "map_option stdout (session
     [''(define x 1)'', ''(define g (lambda () x))'', ''(define x 2)'', ''(g)''])
   = Some [''1'', ''<lambda>'', ''2'', ''2'']"
  by code_simp

text \<open>
  How parameters meet the closure's environment: after
  \<open>(define x 5)\<close>, \<open>((lambda (x) x) 1)\<close> gives 5, not 1, because the global
  binding is copied over the parameter; surplus arguments are dropped
  (\<open>((lambda (y) (+ y 1)) 1 2)\<close> is 2); but a lambda without parameters applied to an
  argument never copies its environment, so \<open>+\<close> is unbound in its body and
  \<open>((lambda () (+ 1 2)) 7)\<close> gives \<open>()\<close>, while \<open>((lambda () (+ 1 2)))\<close> gives 3.
\<close>

lemma binding_findings_session:
  "map_option stdout (session
     [''(define x 5)'', ''((lambda (x) x) 1)'', ''((lambda (y) (+ y 1)) 1 2)'',
      ''((lambda () (+ 1 2)) 7)'', ''((lambda () (+ 1 2)))''])
   = Some [''5'', ''5'', ''2'', ''()'', ''3'']"
  by code_simp

end
