(* ===== verification/Spec2Isabelle.thy ===== *)
theory Spec2Isabelle
  imports ReadPrint Examples Sessions
begin

text \<open>
  \<^bold>\<open>RustLisp.\<close> A verification development of the Lisp interpreter in \<open>src/src\<close>
  and of the three example programs in \<open>src/examples\<close>, as a shallow embedding: every
  Rust function is a HOL function of the same name (or a step relation), values are a
  datatype, the shared mutable environments are an explicit store.

  \<^bold>\<open>The program.\<close> \<open>read\<close> (\<open>parser.rs\<close>) turns text into a \<open>Value\<close>;
  \<open>eval\<close> (\<open>eval.rs\<close>) evaluates it in an \<open>Rc<Environment>\<close>, a shared
  \<open>RefCell<HashMap<String, Rc<Value>>>\<close>; symbols are looked up, a pair is an
  application whose head evaluates to a built-in \<open>Procedure\<close> (which receives the
  unevaluated operands) or a \<open>Lambda\<close> (whose operands are evaluated by \<open>eval_list\<close>
  and bound by \<open>bind_params\<close> in a fresh environment that also receives a copy of the
  closure's environment). \<open>setup_environment\<close> (\<open>environment.rs\<close>) builds the global
  environment of \<open>quote define lambda + - * / = < >\<close>, \<open>rust-call\<close>
  (\<open>rust_functions.rs\<close>) calls a Rust function from a thread-local registry,
  \<open>interop.rs\<close> calls Lisp from Rust, \<open>print_value\<close> (\<open>printer.rs\<close>) prints a
  value, and \<open>main.rs\<close> runs a read-eval-print loop.

  \<^bold>\<open>Theories.\<close>
  \<^item> \<open>Prelude\<close>: named theorem collections and lemmas on maps and lists.
  \<^item> \<open>Values\<close> (\<open>types.rs\<close>, list conversions of \<open>interop.rs\<close>): \<open>lisp_value\<close>
    with the constructors of \<open>Value\<close>; the \<open>f64\<close> type is a parameter \<open>'n\<close> and
    its operations the record \<open>numops\<close>; a procedure is the \<open>prim\<close> it runs; an
    \<open>Rc<Environment>\<close> is an index \<open>envref\<close> into the store.
  \<^item> \<open>Reader\<close> (\<open>parser.rs\<close>): \<open>read\<close>, \<open>read_expr\<close>, \<open>read_list\<close>,
    \<open>read_atom\<close> on the list of remaining characters, errors as \<open>read_error\<close>;
    \<open>is_f64_literal\<close> is the exact grammar \<open>str::parse::<f64>\<close> accepts.
    Termination of the mutual recursion is proved (\<open>read_consumes\<close>).
  \<^item> \<open>Printer\<close> (\<open>printer.rs\<close>): \<open>print_value\<close>, its pair loop \<open>print_elems\<close>.
  \<^item> \<open>ReadPrint\<close>: reading back printed values.
  \<^item> \<open>Builtins\<close> (\<open>environment.rs\<close>): the bodies of the numeric procedures and the
    reference folds \<open>arith_ref\<close> they are compared with.
  \<^item> \<open>RustFunctions\<close> (\<open>rust_functions.rs\<close>): the registry, \<open>rust_call\<close>'s lookup,
    \<open>rust_add\<close>, \<open>rust_multiply\<close>, \<open>rust_length\<close>, \<open>rust_uppercase\<close>; a Rust
    function returns its value and the lines it prints.
  \<^item> \<open>Eval\<close> (\<open>eval.rs\<close>, \<open>environment.rs\<close>): the state \<open>lisp_state\<close> (store
    \<open>envs\<close>, registry \<open>rust_fns\<close>, printed lines \<open>stdout\<close>); \<open>eval\<close>,
    \<open>eval_list\<close> and \<open>apply_prim\<close> (the body of every built-in procedure and of
    \<open>rust_call\<close>) as one mutually recursive function with fuel; \<open>bind_params\<close>;
    \<open>setup_environment\<close>, \<open>setup_rust_functions\<close>, \<open>register_rust_function\<close>.
  \<^item> \<open>EvalFacts\<close>: fuel monotonicity, growth of the store, the frame property.
  \<^item> \<open>EvalSemantics\<close>: the result of the numeric procedures, \<open>define\<close>, closure calls
    and \<open>rust-call\<close> on given operands.
  \<^item> \<open>Interop\<close> (\<open>interop.rs\<close>): \<open>call_lisp_function\<close>, \<open>register_lisp_function\<close>,
    the value conversions.
  \<^item> \<open>Repl\<close> (\<open>main.rs\<close>): \<open>main_setup\<close> and the loop as the relation
    \<open>repl_step\<close> on (remaining input lines, state), and as the executable function
    \<open>repl_run\<close> on a finite input, which refines it (\<open>repl_run_refines\<close>).
  \<^item> \<open>RatNum\<close>: exact rational numbers as an instance of \<open>numops\<close>, to run the model.
  \<^item> \<open>Examples\<close> (\<open>src/examples\<close>): the three programs as functions from fuel to
    their printed lines.
  \<^item> \<open>Sessions\<close>: REPL sessions run with \<open>repl_run\<close>: the examples the specification
    lists, snapshot-at-call, and parameter binding.
  The example programs and the sessions are tests: lemmas that the model, run on the
  rational instance, prints the stated lines. This root theory holds the witnesses:
  each property with a hypothesis applied to a concrete program of that instance.

  \<^bold>\<open>State and effects.\<close> Environments are never freed in the model: a new one is
  appended to \<open>envs\<close>, \<open>define\<close> updates one in place, so aliasing between closures
  that share an environment is exactly that of the \<open>Rc\<close>s. \<open>println!\<close> appends to
  \<open>stdout\<close>. Every \<open>Err\<close> of the reader is a value of \<open>read_error\<close> and its message.

  \<^bold>\<open>Fuel.\<close> \<open>eval\<close> need not terminate (a closure may call itself forever; the
  Rust program then overflows its stack). Each of \<open>eval\<close>, \<open>eval_list\<close>,
  \<open>apply_prim\<close> spends one unit per call and returns \<open>None\<close> when fuel runs out, so
  fuel bounds the nesting depth of the evaluation. A result obtained with some fuel is
  the result with all larger fuel (\<open>eval_fuel_mono\<close>), so the fuel of the theorems
  (the operand count plus two for a call, 100 for the example programs and 50 per line
  for the sessions, more than any of their evaluations nest) only has to be large enough, and a run that is
  \<open>None\<close> for all fuel is a non-terminating run of the program.

  \<^bold>\<open>Properties.\<close> Evaluation in an environment changes no other existing
  environment (\<open>eval_frame\<close>); the reader terminates, consuming input
  (\<open>read_consumes\<close>), and a readable value printed and read back is itself
  (\<open>read_print_roundtrip\<close>), while a printed list cut before its last parenthesis is
  a reader error (\<open>read_missing_close\<close>); the numeric procedures agree with reference
  folds (\<open>eval_numeric_call\<close>), and the operators bound at start-up compute them
  (\<open>main_setup_operators\<close>); \<open>define\<close> (\<open>eval_define\<close>), closure calls
  (\<open>eval_call_flat\<close>, \<open>eval_call_nullary_args\<close>) and \<open>rust-call\<close>
  (\<open>eval_rust_call\<close>, found and not found) return the stated value and state;
  \<open>call_lisp_function\<close> on a closure is the Lisp call (\<open>call_lisp_function_flat\<close>),
  evaluates its arguments again (\<open>call_lisp_function_reevaluates\<close>), and calls what
  \<open>register_lisp_function\<close> registered (\<open>register_then_call\<close>); the vector and list
  conversions are inverse (\<open>rust_to_lisp_list_vector\<close>); quoting a printed value and
  evaluating it gives the value back (\<open>quote_read_eval\<close>); the REPL loops forever at
  the end of its input (\<open>repl_eof_runs_forever\<close>); the example's \<open>is-even\<close>
  saturates (\<open>rust_is_even_saturates\<close>).

  \<^bold>\<open>Findings\<close> (each shown by the theorem named). A closure's environment is copied
  over its parameters, so an outer binding of a parameter's name shadows the argument
  (\<open>eval_call_flat\<close>). The REPL never ends at end of input
  (\<open>repl_eof_runs_forever\<close>). \<open>call_lisp_function\<close> evaluates its argument values
  again (\<open>call_lisp_function_reevaluates\<close>). \<open>rust-call\<close> evaluates its operands,
  so \<open>(rust-call concat hello world)\<close> fails (\<open>eval_rust_call\<close>,
  \<open>rust_from_lisp_output\<close>). \<open>is-even\<close> is wrong from \<open>2^63\<close> up
  (\<open>rust_is_even_saturates\<close>). \<open>#f\<close> is printed but not bound
  (\<open>main_setup_lookup\<close>). A lambda without parameters applied to an argument runs
  without any binding (\<open>eval_call_nullary_args\<close>). An unterminated list is reported
  as \<open>Expected ')'\<close>, not as an unexpected end of input (\<open>read_missing_close\<close>).

  \<^bold>\<open>Not modelled.\<close> The value of an \<open>f64\<close> literal and \<open>f64\<close> arithmetic and
  formatting are abstract (\<open>numops\<close>); the rational instance is exact and agrees with
  binary64 only on exactly representable values, and has no infinities or NaN.
  Characters are those below U+0100 (HOL's \<open>char\<close>), so the REPL's banner and prompt,
  which use other characters, are left out of the printed lines. I/O errors of
  \<open>read_line\<close> (which end the REPL) are not modelled; stack overflow is the absence of
  a result for every fuel. \<open>lib.rs\<close> only declares modules and re-exports.
\<close>

abbreviation lst :: "'n lisp_value list \<Rightarrow> 'n lisp_value" where
  "lst \<equiv> rust_to_lisp_list"

lemma main_setup_ok: "0 < length (envs (snd main_setup))"
  by (simp add: main_setup_simps)

lemma main_setup_lookup:
  "env_get (snd main_setup) 0 k = (global_bindings(''rust-call'' \<mapsto> Procedure ''rust-call'' PRustCall)) k"
  by (simp add: main_setup_simps env_get_def)

text \<open>
  C15 (roundtrip). Reader, evaluator and printer together: the text \<open>'t\<close>, where
  \<open>t\<close> is the printed form of a readable value \<open>v\<close>, reads as \<open>(quote v)\<close>, which
  evaluates to \<open>v\<close> without changing the state, so it prints as \<open>t\<close> again.
\<close>

theorem quote_read_eval:
  "readable ops v \<Longrightarrow> env_get s e ''quote'' = Some (Procedure nm PQuote) \<Longrightarrow>
   read ops (CHR 0x27 # print_value ops v) = Inr (quote_form v) \<and>
   eval ops 2 (quote_form v) e s = Some (v, s)"
proof -
  assume v: "readable ops v" and q: "env_get s e ''quote'' = Some (Procedure nm PQuote)"
  have "read_expr ops (print_value ops v @ []) = Inr (v, [])" by (rule read_print [OF v]) simp
  then have "read_expr ops (CHR 0x27 # print_value ops v) = Inr (quote_form v, [])"
    by (simp add: read_expr_quote skip_ws_def is_whitespace_def)
  then have "read ops (CHR 0x27 # print_value ops v) = Inr (quote_form v)" by (simp add: read_def)
  moreover have "eval ops 2 (quote_form v) e s = Some (v, s)"
    using q by (simp add: numeral_eq_Suc quote_form_def cons_def)
  ultimately show ?thesis ..
qed

theorem eval_frame_witness:
  "case eval rat_ops 10 (lst [Symbol ''define'', Symbol ''y'', Number 7]) 1
          (snd (alloc_env global_bindings (snd main_setup))) of
     Some (v, s') \<Rightarrow> envs s' ! 0 = envs (snd (alloc_env global_bindings (snd main_setup))) ! 0
   | None \<Rightarrow> False"
proof -
  let ?s = "snd (alloc_env global_bindings (snd main_setup)) :: rat lisp_state"
  have "map_option fst (eval rat_ops 10 (lst [Symbol ''define'', Symbol ''y'', Number 7]) 1 ?s)
        = Some (Number 7)"
    by code_simp
  then obtain s' where r: "eval rat_ops 10 (lst [Symbol ''define'', Symbol ''y'', Number 7]) 1 ?s
      = Some (Number 7, s')" by auto
  have "0 < length (envs ?s)" by (simp add: alloc_env_def)
  with eval_frame [OF r] r show ?thesis by simp
qed

theorem read_print_roundtrip_witness:
  "read_expr rat_ops (print_value rat_ops (lst [Number (5 / 2), Symbol ''foo'', lst [Number (-3)]]) @ '' x'')
   = Inr (lst [Number (5 / 2), Symbol ''foo'', lst [Number (-3)]], '' x'')"
proof -
  have "readable rat_ops (lst [Number (5 / 2 :: rat), Symbol ''foo'', lst [Number (-3)]])"
    by code_simp
  moreover have "'' x'' = [] \<or> is_delim (hd '' x'')" by (simp add: is_delim_def is_whitespace_def)
  ultimately show ?thesis by (rule read_print_roundtrip)
qed

theorem read_consumes_witness:
  "case read_expr rat_ops ''(1 2) 3'' of Inr (v, r) \<Rightarrow> length r < 7 | Inl _ \<Rightarrow> False"
proof -
  have "read_expr rat_ops ''(1 2) 3'' = Inr (lst [Number 1, Number 2], '' 3'')" by code_simp
  with read_consumes [OF this] show ?thesis by simp
qed

theorem eval_call_flat_witness:
  "eval rat_ops 6 (lst [lst [Symbol ''lambda'', lst [Symbol ''x''], Symbol ''x''], Number 1]) 0
     (env_insert (snd main_setup) 0 ''x'' (Number 5)) =
   Some (Number 5, (env_insert (snd main_setup) 0 ''x'' (Number 5))
     \<lparr>envs := envs (env_insert (snd main_setup) 0 ''x'' (Number 5)) @
        [Map.empty([''x''] [\<mapsto>] [Number 1]) ++ (envs (env_insert (snd main_setup) 0 ''x'' (Number 5)) ! 0)]\<rparr>)"
proof -
  let ?S = "env_insert (snd main_setup) 0 ''x'' (Number 5) :: rat lisp_state"
  have f: "eval rat_ops 5 (lst [Symbol ''lambda'', lst [Symbol ''x''], Symbol ''x'']) 0 ?S =
      Some (Lambda (lst (map Symbol [''x''])) (Symbol ''x'') 0, ?S)"
    by (simp add: numeral_eq_Suc env_get_def env_insert_def main_setup_simps global_bindings_def)
  have "eval rat_ops (Suc 5) (ConsV (lst [Symbol ''lambda'', lst [Symbol ''x''], Symbol ''x''])
      (lst [Number 1])) 0 ?S =
      eval rat_ops 5 (Symbol ''x'') (length (envs ?S))
        (?S\<lparr>envs := envs ?S @ [Map.empty([''x''] [\<mapsto>] [Number 1]) ++ (envs ?S ! 0)]\<rparr>)"
    by (rule eval_call_flat [OF f]) simp_all
  then show ?thesis
    by (simp add: numeral_eq_Suc env_get_def env_insert_def main_setup_simps)
qed

theorem rust_to_lisp_list_vector_witness:
  "rust_to_lisp_list (lisp_to_rust_vector (lst [Number (1 :: rat), Symbol ''a'', NilV])) =
   lst [Number 1, Symbol ''a'', NilV]"
  by (rule rust_to_lisp_list_vector) simp

theorem eval_numeric_call_witness:
  "eval rat_ops 6 (lst [Symbol ''/'', Number 10, Number 0, Number 4]) 0 (snd main_setup) =
   Some (Number (5 / 2), snd main_setup)"
proof -
  have "env_get (snd main_setup :: rat lisp_state) 0 ''/'' = Some (Procedure ''/'' PDiv)"
    by (simp add: main_setup_lookup global_bindings_def)
  from eval_numeric_call [OF this, of rat_ops "[10, 0, 4]" 4] show ?thesis
    by (simp add: numeral_eq_Suc rat_ops_def)
qed

theorem eval_define_witness:
  "eval rat_ops 3 (lst [Symbol ''define'', Symbol ''y'', Number 7]) 0 (snd main_setup) =
     Some (Number 7, env_insert (snd main_setup) 0 ''y'' (Number 7)) \<and>
   env_get (env_insert (snd main_setup) 0 ''y'' (Number 7)) 0 ''y'' = Some (Number (7 :: rat))"
proof -
  have d: "env_get (snd main_setup :: rat lisp_state) 0 ''define'' = Some (Procedure ''define'' PDefine)"
    by (simp add: main_setup_lookup global_bindings_def)
  have x: "eval rat_ops 1 (Number 7) 0 (snd main_setup) = Some (Number 7, snd main_setup)" by simp
  from eval_define [OF d main_setup_ok x, of "''y''" NilV] show ?thesis by (simp add: numeral_eq_Suc)
qed

theorem call_lisp_function_flat_witness:
  "map_option fst (call_lisp_function rat_ops (Suc 5) ''inc'' [Number 41] 0
     (env_insert (snd main_setup) 0 ''inc''
        (Lambda (lst [Symbol ''x'']) (lst [Symbol ''+'', Symbol ''x'', Number 1]) 0))) = Some (Number 42)"
proof -
  let ?S = "env_insert (snd main_setup) 0 ''inc''
        (Lambda (lst [Symbol ''x'']) (lst [Symbol ''+'', Symbol ''x'', Number 1]) 0) :: rat lisp_state"
  have f: "env_get ?S 0 ''inc'' =
      Some (Lambda (lst (map Symbol [''x''])) (lst [Symbol ''+'', Symbol ''x'', Number 1]) 0)"
    by (simp add: env_get_def env_insert_def main_setup_simps)
  have eq: "call_lisp_function rat_ops (Suc 5) ''inc'' [Number 41] 0 ?S =
      eval rat_ops 5 (lst [Symbol ''+'', Symbol ''x'', Number 1]) (length (envs ?S))
        (?S\<lparr>envs := envs ?S @ [Map.empty([''x''] [\<mapsto>] [Number 41]) ++ (envs ?S ! 0)]\<rparr>)"
    by (rule call_lisp_function_flat [OF f]) simp_all
  show ?thesis unfolding eq by code_simp
qed

theorem call_lisp_function_reevaluates_witness:
  "map_option fst (call_lisp_function rat_ops 3 ''idf'' [Symbol ''hello''] 0
     (env_insert (snd main_setup) 0 ''idf'' (Lambda (ConsV (Symbol ''y'') NilV) (Symbol ''y'') 0))) =
   Some NilV"
proof -
  let ?S = "env_insert (snd main_setup) 0 ''idf'' (Lambda (ConsV (Symbol ''y'') NilV) (Symbol ''y'') 0)
    :: rat lisp_state"
  have f: "env_get ?S 0 ''idf'' = Some (Lambda (ConsV (Symbol ''y'') NilV) (Symbol ''y'') 0)"
    by (simp add: env_get_def env_insert_def main_setup_simps)
  have a: "eval rat_ops 1 (Symbol ''hello'') 0 ?S = Some (NilV, ?S)"
    by (simp add: env_get_def env_insert_def main_setup_simps global_bindings_def)
  have y: "(envs ?S ! 0) ''y'' = None"
    by (simp add: env_insert_def main_setup_simps global_bindings_def)
  from call_lisp_function_reevaluates [OF f a y] show ?thesis by (simp add: numeral_eq_Suc)
qed

theorem repl_eof_runs_forever_witness:
  "(\<exists>k. ([] :: string list,
          emit [''Error: Unexpected end of input'', ''Error: Unexpected end of input''] (snd main_setup))
        = ([], emit (replicate k ''Error: Unexpected end of input'') (snd main_setup :: rat lisp_state))) \<and>
   \<not> repl_exits ([], emit [''Error: Unexpected end of input'', ''Error: Unexpected end of input'']
        (snd main_setup :: rat lisp_state)) \<and>
   (\<exists>c'. repl_step rat_ops 0
        ([], emit [''Error: Unexpected end of input'', ''Error: Unexpected end of input''] (snd main_setup)) c')"
proof -
  let ?m = "''Error: Unexpected end of input''"
  have "repl_step rat_ops 0 ([], snd main_setup) ([], emit [?m] (snd main_setup))"
    by (simp add: repl_step_eof)
  moreover have "repl_step rat_ops 0 ([], emit [?m] (snd main_setup)) ([], emit [?m, ?m] (snd main_setup))"
    by (simp add: repl_step_eof)
  ultimately have "(repl_step rat_ops 0)\<^sup>*\<^sup>* ([], snd main_setup) ([], emit [?m, ?m] (snd main_setup))"
    by simp
  then show ?thesis by (rule repl_eof_runs_forever)
qed

theorem rust_is_even_saturates_witness:
  "rust_is_even rat_as_i64 [Number (2 ^ 64)] = (Bool False, [])"
  by (rule rust_is_even_saturates) simp

theorem quote_read_eval_witness:
  "read rat_ops (CHR 0x27 # print_value rat_ops (lst [Symbol ''a'', Symbol ''b'', Symbol ''c''])) =
     Inr (quote_form (lst [Symbol ''a'', Symbol ''b'', Symbol ''c''])) \<and>
   eval rat_ops 2 (quote_form (lst [Symbol ''a'', Symbol ''b'', Symbol ''c''])) 0 (snd main_setup) =
     Some (lst [Symbol ''a'', Symbol ''b'', Symbol ''c''], snd main_setup)"
proof -
  have v: "readable rat_ops (lst [Symbol ''a'', Symbol ''b'', Symbol ''c''] :: rat lisp_value)"
    by code_simp
  have q: "env_get (snd main_setup :: rat lisp_state) 0 ''quote'' = Some (Procedure ''quote'' PQuote)"
    by (simp add: main_setup_lookup global_bindings_def)
  show ?thesis by (rule quote_read_eval [OF v q])
qed

theorem read_missing_close_witness:
  "read rat_ops (butlast (print_value rat_ops (ConsV (Number 1) (lst [Number 2])))) =
   Inl (read_error_message ExpectedClose)"
proof -
  have "readable rat_ops (ConsV (Number 1) (lst [Number 2]) :: rat lisp_value)" by code_simp
  then show ?thesis by (rule read_missing_close)
qed

theorem eval_rust_call_witness:
  "eval rat_ops 8 (lst [Symbol ''rust-call'', Symbol ''rust-add'', lst [Symbol ''+'', Number 1, Number 2],
       Number 4]) 0 (register_rust_function ''rust-add'' (rust_add rat_ops) (snd main_setup)) =
   Some (Number 7, register_rust_function ''rust-add'' (rust_add rat_ops) (snd main_setup))"
proof -
  let ?S = "register_rust_function ''rust-add'' (rust_add rat_ops) (snd main_setup) :: rat lisp_state"
  have rc: "env_get ?S 0 ''rust-call'' = Some (Procedure ''rust-call'' PRustCall)"
    by (simp add: env_get_def register_rust_function_def main_setup_simps)
  have l: "eval_list rat_ops 6 (lst [lst [Symbol ''+'', Number 1, Number 2], Number 4]) 0 ?S =
      Some (lst [Number 3, Number 4], ?S)"
    by (simp add: numeral_eq_Suc env_get_def register_rust_function_def main_setup_simps
        global_bindings_def rat_ops_def prim_add_def cons_def)
  from eval_rust_call [OF rc l, of "''rust-add''"] show ?thesis
    by (simp add: numeral_eq_Suc register_rust_function_def registry_register_def rust_add_def rat_ops_def)
qed

theorem register_then_call_witness:
  "map_option fst (call_lisp_function rat_ops (Suc 5) ''square'' [Number 5] 0
     (env_insert (snd main_setup) 0 ''square''
        (Lambda (lst (map Symbol [''x''])) (lst [Symbol ''*'', Symbol ''x'', Symbol ''x'']) 0))) =
   Some (Number 25)"
proof -
  let ?S' = "env_insert (snd main_setup) 0 ''square''
        (Lambda (lst (map Symbol [''x''])) (lst [Symbol ''*'', Symbol ''x'', Symbol ''x'']) 0) :: rat lisp_state"
  have p: "read rat_ops ''(x)'' = Inr (lst (map Symbol [''x'']))" by code_simp
  have b: "read rat_ops ''(* x x)'' = Inr (lst [Symbol ''*'', Symbol ''x'', Symbol ''x''])" by code_simp
  have r: "register_lisp_function rat_ops ''square'' ''(x)'' ''(* x x)'' 0 (snd main_setup) = Inr ?S'"
    by (simp only: register_lisp_function_def p b sum.case)
  have eq: "call_lisp_function rat_ops (Suc 5) ''square'' [Number 5] 0 ?S' =
      eval rat_ops 5 (lst [Symbol ''*'', Symbol ''x'', Symbol ''x'']) (length (envs ?S'))
        (?S'\<lparr>envs := envs ?S' @ [Map.empty([''x''] [\<mapsto>] [Number 5]) ++ (envs ?S' ! 0)]\<rparr>)"
    by (rule register_then_call [OF p b main_setup_ok r]) simp_all
  show ?thesis unfolding eq by code_simp
qed

theorem main_setup_operators_witness:
  "eval rat_ops (Suc (Suc 4)) (ConsV (Symbol ''-'') (lst (map Number [10, 1, 2]))) (fst main_setup)
     (snd main_setup) = Some (Number 7, snd main_setup :: rat lisp_state)"
proof -
  have "(''-'', PSub) \<in> set [(''+'', PAdd), (''-'', PSub), (''*'', PMul), (''/'', PDiv), (''='', PNumEq),
                (''<'', PLess), (''>'', PGreater)]" by simp
  from main_setup_operators [OF this, of "[10, 1, 2]" 4 rat_ops] show ?thesis
    by (simp add: rat_ops_def)
qed

theorem eval_call_nullary_args_witness:
  "map_option fst (eval rat_ops (Suc 5)
     (ConsV (lst [Symbol ''lambda'', NilV, lst [Symbol ''+'', Number 1, Number 2]]) (lst [Number 7]))
     0 (snd main_setup)) = Some NilV"
proof -
  have f: "eval rat_ops 5 (lst [Symbol ''lambda'', NilV, lst [Symbol ''+'', Number 1, Number 2]]) 0
      (snd main_setup) = Some (Lambda NilV (lst [Symbol ''+'', Number 1, Number 2]) 0, snd main_setup)"
    by (simp add: numeral_eq_Suc env_get_def main_setup_simps global_bindings_def)
  have eq: "eval rat_ops (Suc 5)
     (ConsV (lst [Symbol ''lambda'', NilV, lst [Symbol ''+'', Number 1, Number 2]]) (lst [Number 7]))
     0 (snd main_setup) =
     eval rat_ops 5 (lst [Symbol ''+'', Number 1, Number 2]) (length (envs (snd main_setup :: rat lisp_state)))
       ((snd main_setup)\<lparr>envs := envs (snd main_setup) @ [Map.empty]\<rparr>)"
    by (rule eval_call_nullary_args [OF f]) simp_all
  show ?thesis unfolding eq by code_simp
qed

end
